theory Spec2Isabelle
  imports Main
begin

section \<open>Hospital record API: replies, documents and the document store\<close>

text \<open>
  The route handlers of the hospital API are modelled as functions from the authenticated
  role, the request and the document store to a reply and the new store. Every
  \<^verbatim>\<open>return res.status(..)\<close> of a handler is a branch of its model, and an exception
  thrown by a store call is the value \<open>Inl\<close> of that call, which the handler's
  \<^verbatim>\<open>catch\<close> turns into the reply 500.

  A document is a record of the paths of its schema; a key that is not a path of the
  schema is dropped when a document is built and is not persisted when it is assigned to
  a loaded document. Numbers are integers: the numbers of the requests and of the store
  are integer-valued JavaScript numbers, and the one arithmetic operation of the routes,
  \<open>id + 1\<close>, is \<open>js_add1\<close>. Dates are integers, a request body is a record whose
  optional fields are \<open>None\<close> when the payload leaves them out. The timestamps the store
  keeps for itself are not part of the documents.
\<close>

subsection \<open>Replies\<close>

datatype 'a reply = Data nat 'a | Msg nat string

fun status :: "'a reply \<Rightarrow> nat" where
  "status (Data c _) = c"
| "status (Msg c _) = c"

text \<open>The status classes of the interface: 404, 401, 400, 500.\<close>

definition is_NotFound :: "'a reply \<Rightarrow> bool" where
  "is_NotFound r = (status r = 404)"

definition is_Forbidden :: "'a reply \<Rightarrow> bool" where
  "is_Forbidden r = (status r = 401)"



subsection \<open>Documents\<close>

type_synonym objectId = nat
type_synonym date = int

text \<open>
  Modelled from the spec: the User schema that carries the numeric \<open>id\<close> which
  \<^verbatim>\<open>User.findOne({ id: userId })\<close> reads is not among the sources; the fields are those
  of the data model (id, name, email, role).
\<close>

record user =
  u_oid :: objectId
  u_id :: int
  u_name :: string
  u_email :: string
  u_role :: string

record employee =
  e_oid :: objectId
  e_id :: int
  e_userId :: int
  e_dob :: date
  e_hireDate :: date
  e_salary :: int

record doctor =
  d_oid :: objectId
  d_id :: int
  d_empId :: int
  d_charges :: int

record patient =
  p_oid :: objectId
  p_id :: int
  p_userId :: int
  p_wardId :: "int option"
  p_doctorId :: int
  p_dateOfAdm :: date
  p_bloodGroup :: string
  p_dob :: date
  p_prescription :: "string option"
  p_bedAllocated :: "int option"
  p_paymentStatus :: string
  p_patientProblem :: string

record medicine =
  m_oid :: objectId
  m_id :: int
  m_name :: string
  m_price :: int

text \<open>
  The ward, visit and assignment routes address documents by the store's own key. The
  documents have the paths of the schemas: \<open>maxCap\<close>, \<open>patId\<close>, \<open>doctorId\<close>,
  \<open>medicineId\<close>, \<open>medicineQty\<close>, where the routes write \<^verbatim>\<open>max_cap\<close>, \<^verbatim>\<open>pat_id\<close>,
  \<^verbatim>\<open>doctor_id\<close>, \<^verbatim>\<open>medicine_id\<close>, \<^verbatim>\<open>medicine_qty\<close>.
\<close>

record ward =
  w_oid :: objectId
  w_id :: int
  w_type :: string
  w_charges :: int
  w_availability :: bool
  w_maxCap :: int
  w_currentOccupancy :: int

record doctor_visit =
  v_oid :: objectId
  v_patId :: int
  v_doctorId :: int
  v_visits :: int
  v_visitDate :: date
  v_remarks :: "string option"

record medicine_assigned =
  a_oid :: objectId
  a_patId :: int
  a_medicineId :: int
  a_prescription :: string
  a_medicineQty :: int

subsection \<open>The store\<close>

record store =
  next_oid :: objectId
  users :: "user list"
  employees :: "employee list"
  doctors :: "doctor list"
  patients :: "patient list"
  medicines :: "medicine list"
  wards :: "ward list"
  visits :: "doctor_visit list"
  assignments :: "medicine_assigned list"

definition empty_store :: store where
  "empty_store = \<lparr>next_oid = 0, users = [], employees = [], doctors = [], patients = [],
     medicines = [], wards = [], visits = [], assignments = []\<rparr>"

datatype store_error = ValidationError | DuplicateKey

text \<open>\<^verbatim>\<open>Model.findOne(filter)\<close>: the first document, in insertion order, that matches.\<close>

definition findOne :: "('a \<Rightarrow> bool) \<Rightarrow> 'a list \<Rightarrow> 'a option" where
  "findOne P xs = find P xs"

text \<open>\<^verbatim>\<open>Model.findById(id)\<close>: the document with that store key.\<close>

definition findById :: "('a \<Rightarrow> objectId) \<Rightarrow> objectId \<Rightarrow> 'a list \<Rightarrow> 'a option" where
  "findById oid i xs = find (\<lambda>x. oid x = i) xs"

text \<open>\<^verbatim>\<open>Model.findOne().sort('-id')\<close>: a document with the largest \<open>id\<close>, if there is one.\<close>

definition findHighest :: "('a \<Rightarrow> int) \<Rightarrow> 'a list \<Rightarrow> 'a option" where
  "findHighest f xs =
     (case xs of [] \<Rightarrow> None
      | x # ys \<Rightarrow> Some (fold (\<lambda>y best. if f best < f y then y else best) ys x))"

text \<open>
  \<^verbatim>\<open>x + 1\<close> on JavaScript numbers, for an integer \<open>x\<close> that is a number: exact from
  \<open>- 2 ^ 53\<close> to \<open>2 ^ 53 - 1\<close>; beyond, the sum is rounded to the nearest number, a tie
  to the one with the even significand. The numbers from \<open>2 ^ 53\<close> to \<open>2 ^ 54\<close> are
  the even integers, the larger ones are at least 4 apart.
\<close>

definition js_add1 :: "int \<Rightarrow> int" where
  "js_add1 x =
     (if - (2 ^ 53) \<le> x \<and> x < 2 ^ 53 then x + 1
      else if 2 ^ 54 \<le> x \<or> x \<le> - (2 ^ 54) then x
      else if even (x div 2) then x else x + 2)"

text \<open>\<^verbatim>\<open>const newId = highest ? highest.id + 1 : 1\<close>\<close>

definition newId :: "('a \<Rightarrow> int) \<Rightarrow> 'a list \<Rightarrow> int" where
  "newId f xs = (case findHighest f xs of Some highest \<Rightarrow> js_add1 (f highest) | None \<Rightarrow> 1)"

text \<open>\<^verbatim>\<open>findOneAndDelete\<close> and \<^verbatim>\<open>doc.remove()\<close>: the first match leaves the collection.\<close>

fun remove_first :: "('a \<Rightarrow> bool) \<Rightarrow> 'a list \<Rightarrow> 'a list" where
  "remove_first P [] = []"
| "remove_first P (x # xs) = (if P x then xs else x # remove_first P xs)"

text \<open>\<^verbatim>\<open>findOneAndUpdate\<close> and \<^verbatim>\<open>doc.save()\<close>: the first match is replaced.\<close>

fun update_first :: "('a \<Rightarrow> bool) \<Rightarrow> ('a \<Rightarrow> 'a) \<Rightarrow> 'a list \<Rightarrow> 'a list" where
  "update_first P f [] = []"
| "update_first P f (x # xs) = (if P x then f x # xs else x # update_first P f xs)"

text \<open>The role checks written inline in the visit, assignment and ward routes.\<close>

definition is_clinical :: "string \<Rightarrow> bool" where
  "is_clinical role = (\<not> (role \<noteq> ''doctor'' \<and> role \<noteq> ''admin'' \<and> role \<noteq> ''staff''))"

text \<open>
  Modelled from the spec: the \<^verbatim>\<open>admin\<close> middleware of the numeric-id routes is not among
  the sources; administrative writes and deletes require the role \<open>admin\<close>, and a
  violation is answered 401.
\<close>

definition admin :: "string \<Rightarrow> bool" where
  "admin role = (role = ''admin'')"

subsection \<open>Request values and the configuration of the store library\<close>

text \<open>
  A field of a request that the validators accept as a number or as a string.
\<close>

datatype jsval = JNum int | JStr string

text \<open>\<^verbatim>\<open>.not().isEmpty()\<close>: the value, as a string, is not the empty string.\<close>

fun not_empty :: "jsval \<Rightarrow> bool" where
  "not_empty (JNum n) = True"
| "not_empty (JStr s) = (s \<noteq> [])"


text \<open>
  \<^verbatim>\<open>.isNumeric()\<close>: the value, as a string, matches
  \<^verbatim>\<open>^[+-]?([0-9]*[.])?[0-9]+$\<close>; an integer prints as its decimal digits.
\<close>

definition is_digit :: "char \<Rightarrow> bool" where
  "is_digit c = (c \<in> set ''0123456789'')"

definition unsigned_numeric :: "string \<Rightarrow> bool" where
  "unsigned_numeric s =
     (case dropWhile is_digit s of
        [] \<Rightarrow> s \<noteq> []
      | c # r \<Rightarrow> c = CHR ''.'' \<and> r \<noteq> [] \<and> list_all is_digit r)"

fun isNumeric :: "jsval \<Rightarrow> bool" where
  "isNumeric (JNum n) = True"
| "isNumeric (JStr s) =
     (case s of
        [] \<Rightarrow> False
      | c # r \<Rightarrow> if c = CHR ''+'' \<or> c = CHR ''-'' then unsigned_numeric r
                 else unsigned_numeric s)"

text \<open>
  What the sources do not fix, taken as parameters of the handlers: whether the store
  library drops the keys of a query filter that are not paths of the schema
  (\<open>strictQuery\<close>) or sends them as they are, in which case they match no stored
  document; whether \<^verbatim>\<open>populate\<close> of a key that is not a path throws (\<open>strictPopulate\<close>)
  or is ignored; the cast of a string to a Number path (\<open>None\<close>: the cast fails); and
  the clock read by the default of \<open>visitDate\<close>.
\<close>

record env =
  strictQuery :: bool
  strictPopulate :: bool
  castNumber :: "string \<Rightarrow> int option"
  now :: date

fun toNumber :: "env \<Rightarrow> jsval \<Rightarrow> int option" where
  "toNumber e (JNum n) = Some n"
| "toNumber e (JStr s) = castNumber e s"

section \<open>Medicine assignment routes\<close>

record assign_body =
  ab_pat_id :: objectId
  ab_medicine_id :: objectId
  ab_prescription :: string
  ab_medicine_qty :: jsval

text \<open>
  A new document before it is validated: a required path is \<open>None\<close> when the constructor
  was given no value for it.
\<close>

record assigned_draft =
  ad_patId :: "int option"
  ad_medicineId :: "int option"
  ad_prescription :: "string option"
  ad_medicineQty :: "int option"

text \<open>
  \<^verbatim>\<open>new MedicineAssigned({ pat_id, medicine_id, prescription, medicine_qty })\<close>: of the
  four keys only \<open>prescription\<close> is a path of the schema.
\<close>

definition new_MedicineAssigned :: "assign_body \<Rightarrow> assigned_draft" where
  "new_MedicineAssigned b =
     \<lparr>ad_patId = None, ad_medicineId = None, ad_prescription = Some (ab_prescription b),
      ad_medicineQty = None\<rparr>"

text \<open>The validators of the schema: four required paths, the quantity at least 1.\<close>

definition validate_assignment :: "medicine_assigned \<Rightarrow> bool" where
  "validate_assignment a = (a_prescription a \<noteq> [] \<and> 1 \<le> a_medicineQty a)"

definition validate_draft :: "objectId \<Rightarrow> assigned_draft \<Rightarrow> medicine_assigned option" where
  "validate_draft oid d =
     (if ad_patId d = None \<or> ad_medicineId d = None \<or> ad_prescription d = None \<or>
         ad_medicineQty d = None
      then None
      else
       (let a = \<lparr>a_oid = oid, a_patId = the (ad_patId d), a_medicineId = the (ad_medicineId d),
                  a_prescription = the (ad_prescription d),
                  a_medicineQty = the (ad_medicineQty d)\<rparr>
        in if validate_assignment a then Some a else None))"

text \<open>\<^verbatim>\<open>existingAssignment.save()\<close>\<close>

definition save_assignment :: "medicine_assigned \<Rightarrow> store \<Rightarrow> store_error + store" where
  "save_assignment a st =
     (if validate_assignment a
      then Inr (st\<lparr>assignments := update_first (\<lambda>x. a_oid x = a_oid a) (\<lambda>_. a) (assignments st)\<rparr>)
      else Inl ValidationError)"

text \<open>\<^verbatim>\<open>newAssignment.save()\<close>\<close>

definition insert_assignment ::
  "assigned_draft \<Rightarrow> store \<Rightarrow> store_error + (medicine_assigned \<times> store)" where
  "insert_assignment d st =
     (case validate_draft (next_oid st) d of
        None \<Rightarrow> Inl ValidationError
      | Some a \<Rightarrow>
          Inr (a, st\<lparr>next_oid := Suc (next_oid st), assignments := assignments st @ [a]\<rparr>))"

text \<open>
  \<^verbatim>\<open>MedicineAssigned.findOne({ pat_id, medicine_id })\<close>: neither key is a path of the
  schema. With \<open>strictQuery\<close> the filter is empty and the first document matches;
  without, no stored document has the keys.
\<close>

definition findOne_assignment :: "env \<Rightarrow> assign_body \<Rightarrow> store \<Rightarrow> medicine_assigned option" where
  "findOne_assignment e b st =
     (if strictQuery e then findOne (\<lambda>a. True) (assignments st) else None)"

text \<open>
  \<^verbatim>\<open>MedicineAssigned.findById(id).populate('pat_id', ..).populate('medicine_id', ..)\<close>,
  sent with \<^verbatim>\<open>res.json\<close>, or the \<^verbatim>\<open>catch\<close> when populate throws.
\<close>

definition populated :: "env \<Rightarrow> 'a \<Rightarrow> 'a reply" where
  "populated e doc = (if strictPopulate e then Msg 500 ''Server Error'' else Data 200 doc)"

text \<open>
  \<^verbatim>\<open>POST api/medicinesassigned\<close>. On an existing assignment the handler assigns
  \<^verbatim>\<open>medicine_qty\<close>, which is not a path and is not persisted, and \<open>prescription\<close>,
  which is.
\<close>

definition assign_post ::
  "env \<Rightarrow> string \<Rightarrow> assign_body \<Rightarrow> store \<Rightarrow> medicine_assigned reply \<times> store" where
  "assign_post e role b st =
     (if ab_prescription b = [] then (Msg 400 ''Prescription details are required'', st)
      else if \<not> isNumeric (ab_medicine_qty b) then (Msg 400 ''Medicine quantity is required'', st)
      else if \<not> is_clinical role then (Msg 401 ''Not authorized to assign medicines'', st)
      else case findById p_oid (ab_pat_id b) (patients st) of
        None \<Rightarrow> (Msg 404 ''Patient not found'', st)
      | Some patient \<Rightarrow>
       (case findById m_oid (ab_medicine_id b) (medicines st) of
          None \<Rightarrow> (Msg 404 ''Medicine not found'', st)
        | Some medicine \<Rightarrow>
         (case findOne_assignment e b st of
            Some existingAssignment \<Rightarrow>
             (let a = existingAssignment\<lparr>a_prescription := ab_prescription b\<rparr>
              in case save_assignment a st of
                   Inl err \<Rightarrow> (Msg 500 ''Server Error'', st)
                 | Inr st' \<Rightarrow> (populated e a, st'))
          | None \<Rightarrow>
             (case insert_assignment (new_MedicineAssigned b) st of
                Inl err \<Rightarrow> (Msg 500 ''Server Error'', st)
              | Inr (a, st') \<Rightarrow> (populated e a, st')))))"



section \<open>Doctor visit routes\<close>

record visit_body =
  vb_pat_id :: objectId
  vb_doctor_id :: objectId
  vb_visits :: jsval

record visit_draft =
  vd_patId :: "int option"
  vd_doctorId :: "int option"
  vd_visits :: int
  vd_visitDate :: date

text \<open>
  \<^verbatim>\<open>new DoctorVisit({ pat_id, doctor_id, visits })\<close>: of the three keys only \<open>visits\<close>
  is a path of the schema, a Number; \<open>visitDate\<close> defaults to the clock.
\<close>

definition new_DoctorVisit :: "env \<Rightarrow> int \<Rightarrow> visit_draft" where
  "new_DoctorVisit e n = \<lparr>vd_patId = None, vd_doctorId = None, vd_visits = n, vd_visitDate = now e\<rparr>"

text \<open>\<^verbatim>\<open>newVisit.save()\<close>: \<open>patId\<close> and \<open>doctorId\<close> are required.\<close>

definition insert_visit :: "visit_draft \<Rightarrow> store \<Rightarrow> store_error + (doctor_visit \<times> store)" where
  "insert_visit d st =
     (if vd_patId d = None \<or> vd_doctorId d = None then Inl ValidationError
      else
       (let v = \<lparr>v_oid = next_oid st, v_patId = the (vd_patId d), v_doctorId = the (vd_doctorId d),
                  v_visits = vd_visits d, v_visitDate = vd_visitDate d, v_remarks = None\<rparr>
        in Inr (v, st\<lparr>next_oid := Suc (next_oid st), visits := visits st @ [v]\<rparr>)))"

text \<open>
  \<^verbatim>\<open>DoctorVisit.findOne({ pat_id, doctor_id, visits: visits })\<close>, the value of \<open>visits\<close>
  already cast: with \<open>strictQuery\<close> the filter is \<open>visits\<close> alone; without, no stored
  document has the other two keys.
\<close>

definition findOne_visit :: "env \<Rightarrow> int \<Rightarrow> store \<Rightarrow> doctor_visit option" where
  "findOne_visit e n st =
     (if strictQuery e then findOne (\<lambda>v. v_visits v = n) (visits st) else None)"

text \<open>
  \<^verbatim>\<open>POST api/doctorvisits\<close>; the handler never reads \<^verbatim>\<open>req.user.role\<close>. A value of
  \<open>visits\<close> that does not cast to a Number makes the query throw.
\<close>

definition visit_post ::
  "env \<Rightarrow> string \<Rightarrow> visit_body \<Rightarrow> store \<Rightarrow> doctor_visit reply \<times> store" where
  "visit_post e role b st =
     (if \<not> not_empty (vb_visits b) then (Msg 400 ''Visit information is required'', st)
      else case findById p_oid (vb_pat_id b) (patients st) of
        None \<Rightarrow> (Msg 404 ''Patient not found'', st)
      | Some patient \<Rightarrow>
       (case findById d_oid (vb_doctor_id b) (doctors st) of
          None \<Rightarrow> (Msg 404 ''Doctor not found'', st)
        | Some doctor \<Rightarrow>
         (case toNumber e (vb_visits b) of
            None \<Rightarrow> (Msg 500 ''Server Error'', st)
          | Some n \<Rightarrow>
           (case findOne_visit e n st of
              Some existingVisit \<Rightarrow> (Msg 400 ''This visit record already exists'', st)
            | None \<Rightarrow>
               (case insert_visit (new_DoctorVisit e n) st of
                  Inl err \<Rightarrow> (Msg 500 ''Server Error'', st)
                | Inr (v, st') \<Rightarrow> (populated e v, st'))))))"



section \<open>Ward routes\<close>





section \<open>Numeric-id routes: patients, doctors, medicines\<close>

text \<open>
  A filter on an \<open>id\<close> that the payload leaves out matches no document: every stored
  document has its \<open>id\<close>.
\<close>

definition findOneId :: "('a \<Rightarrow> int) \<Rightarrow> int option \<Rightarrow> 'a list \<Rightarrow> 'a option" where
  "findOneId f i xs = (case i of None \<Rightarrow> None | Some k \<Rightarrow> findOne (\<lambda>x. f x = k) xs)"

text \<open>An update sets the fields the payload carries.\<close>

definition set_field :: "'a option \<Rightarrow> 'a \<Rightarrow> 'a" where
  "set_field v old = (case v of Some x \<Rightarrow> x | None \<Rightarrow> old)"

definition set_opt_field :: "'a option \<Rightarrow> 'a option \<Rightarrow> 'a option" where
  "set_opt_field v old = (case v of Some x \<Rightarrow> Some x | None \<Rightarrow> old)"

subsection \<open>Patients\<close>

record patient_body =
  pb_id :: "int option"
  pb_userId :: "int option"
  pb_wardId :: "int option"
  pb_doctorId :: "int option"
  pb_dateOfAdm :: "date option"
  pb_bloodGroup :: "string option"
  pb_dob :: "date option"
  pb_prescription :: "string option"
  pb_bedAllocated :: "int option"
  pb_paymentStatus :: "string option"
  pb_patientProblem :: "string option"

definition blood_groups :: "string list" where
  "blood_groups = [''A+'', ''A-'', ''B+'', ''B-'', ''AB+'', ''AB-'', ''O+'', ''O-'']"

definition payment_statuses :: "string list" where
  "payment_statuses = [''pending'', ''paid'', ''partial'']"

text \<open>
  \<^verbatim>\<open>Patient.create({ id: newId, userId, ... })\<close>: the schema's required fields and
  enumerations are validated, \<open>paymentStatus\<close> defaults to \<open>pending\<close>, and the unique
  index on \<open>id\<close> rejects an id that is already stored.
\<close>

definition create_patient :: "int \<Rightarrow> patient_body \<Rightarrow> store \<Rightarrow> store_error + (patient \<times> store)" where
  "create_patient nid b st =
     (if pb_userId b = None \<or> pb_doctorId b = None \<or> pb_dateOfAdm b = None \<or>
         pb_bloodGroup b = None \<or> pb_dob b = None \<or> pb_patientProblem b = None
      then Inl ValidationError
      else
       (let p = \<lparr>p_oid = next_oid st, p_id = nid, p_userId = the (pb_userId b),
                  p_wardId = pb_wardId b, p_doctorId = the (pb_doctorId b),
                  p_dateOfAdm = the (pb_dateOfAdm b), p_bloodGroup = the (pb_bloodGroup b),
                  p_dob = the (pb_dob b), p_prescription = pb_prescription b,
                  p_bedAllocated = pb_bedAllocated b,
                  p_paymentStatus = set_field (pb_paymentStatus b) ''pending'',
                  p_patientProblem = the (pb_patientProblem b)\<rparr>
        in if p_bloodGroup p \<notin> set blood_groups \<or> p_paymentStatus p \<notin> set payment_statuses \<or>
              p_patientProblem p = []
           then Inl ValidationError
           else if nid \<in> set (map p_id (patients st)) then Inl DuplicateKey
           else Inr (p, st\<lparr>next_oid := Suc (next_oid st), patients := patients st @ [p]\<rparr>)))"

text \<open>The part of \<^verbatim>\<open>POST /api/patients\<close> that follows the computation of \<open>newId\<close>.\<close>

definition patient_post_create :: "int \<Rightarrow> patient_body \<Rightarrow> store \<Rightarrow> patient reply \<times> store" where
  "patient_post_create nid b st =
     (case create_patient nid b st of
        Inl err \<Rightarrow> (Msg 500 ''Server error'', st)
      | Inr (p, st') \<Rightarrow> (Data 201 p, st'))"

text \<open>\<^verbatim>\<open>POST /api/patients\<close> (any authenticated role)\<close>

definition patient_post :: "string \<Rightarrow> patient_body \<Rightarrow> store \<Rightarrow> patient reply \<times> store" where
  "patient_post role b st =
     (case findOneId u_id (pb_userId b) (users st) of
        None \<Rightarrow> (Msg 404 ''User not found'', st)
      | Some user \<Rightarrow>
       (case findOneId d_id (pb_doctorId b) (doctors st) of
          None \<Rightarrow> (Msg 404 ''Doctor not found'', st)
        | Some doctor \<Rightarrow> patient_post_create (newId p_id (patients st)) b st))"

definition patch_patient :: "patient_body \<Rightarrow> patient \<Rightarrow> patient" where
  "patch_patient b p =
     p\<lparr>p_id := set_field (pb_id b) (p_id p),
       p_userId := set_field (pb_userId b) (p_userId p),
       p_wardId := set_opt_field (pb_wardId b) (p_wardId p),
       p_doctorId := set_field (pb_doctorId b) (p_doctorId p),
       p_dateOfAdm := set_field (pb_dateOfAdm b) (p_dateOfAdm p),
       p_bloodGroup := set_field (pb_bloodGroup b) (p_bloodGroup p),
       p_dob := set_field (pb_dob b) (p_dob p),
       p_prescription := set_opt_field (pb_prescription b) (p_prescription p),
       p_bedAllocated := set_opt_field (pb_bedAllocated b) (p_bedAllocated p),
       p_paymentStatus := set_field (pb_paymentStatus b) (p_paymentStatus p),
       p_patientProblem := set_field (pb_patientProblem b) (p_patientProblem p)\<rparr>"

text \<open>
  \<^verbatim>\<open>Patient.findOneAndUpdate({ id }, req.body, { new: true, runValidators: true })\<close>:
  the validators run on the fields the payload sets.
\<close>

definition update_patient ::
  "int \<Rightarrow> patient_body \<Rightarrow> store \<Rightarrow> store_error + (patient option \<times> store)" where
  "update_patient pid b st =
     (if (case pb_bloodGroup b of Some g \<Rightarrow> g \<notin> set blood_groups | None \<Rightarrow> False) \<or>
         (case pb_paymentStatus b of Some s \<Rightarrow> s \<notin> set payment_statuses | None \<Rightarrow> False) \<or>
         pb_patientProblem b = Some []
      then Inl ValidationError
      else case findOne (\<lambda>p. p_id p = pid) (patients st) of
        None \<Rightarrow> Inr (None, st)
      | Some p \<Rightarrow>
         (let p' = patch_patient b p
          in if p_id p' \<noteq> p_id p \<and> p_id p' \<in> set (map p_id (patients st))
             then Inl DuplicateKey
             else Inr (Some p',
                  st\<lparr>patients := update_first (\<lambda>x. p_id x = pid) (\<lambda>_. p') (patients st)\<rparr>)))"

text \<open>\<^verbatim>\<open>PUT /api/patients/:id\<close>; the number 0 is falsy in \<^verbatim>\<open>if (req.body.doctorId)\<close>.\<close>

definition patient_put ::
  "string \<Rightarrow> int \<Rightarrow> patient_body \<Rightarrow> store \<Rightarrow> patient option reply \<times> store" where
  "patient_put role pid b st =
     (case findOne (\<lambda>p. p_id p = pid) (patients st) of
        None \<Rightarrow> (Msg 404 ''Patient not found'', st)
      | Some patient \<Rightarrow>
         (if (case pb_doctorId b of
                Some d \<Rightarrow> d \<noteq> 0 \<and> findOne (\<lambda>x. d_id x = d) (doctors st) = None
              | None \<Rightarrow> False)
          then (Msg 404 ''Doctor not found'', st)
          else case update_patient pid b st of
                 Inl err \<Rightarrow> (Msg 500 ''Server error'', st)
               | Inr (updatedPatient, st') \<Rightarrow> (Data 200 updatedPatient, st')))"

text \<open>\<^verbatim>\<open>DELETE /api/patients/:id\<close> (admin)\<close>

definition patient_delete :: "string \<Rightarrow> int \<Rightarrow> store \<Rightarrow> unit reply \<times> store" where
  "patient_delete role pid st =
     (if \<not> admin role then (Msg 401 ''Not authorized as an admin'', st)
      else case findOne (\<lambda>p. p_id p = pid) (patients st) of
        None \<Rightarrow> (Msg 404 ''Patient not found'', st)
      | Some patient \<Rightarrow>
         (Msg 200 ''Patient deleted successfully'',
          st\<lparr>patients := remove_first (\<lambda>p. p_id p = pid) (patients st)\<rparr>))"

subsection \<open>Doctors\<close>

record doctor_body =
  db_id :: "int option"
  db_empId :: "int option"
  db_charges :: "int option"

text \<open>\<^verbatim>\<open>Doctor.create({ id: newId, empId, charges })\<close>\<close>

definition create_doctor :: "int \<Rightarrow> doctor_body \<Rightarrow> store \<Rightarrow> store_error + (doctor \<times> store)" where
  "create_doctor nid b st =
     (if db_empId b = None \<or> db_charges b = None then Inl ValidationError
      else if nid \<in> set (map d_id (doctors st)) then Inl DuplicateKey
      else
       (let d = \<lparr>d_oid = next_oid st, d_id = nid, d_empId = the (db_empId b),
                  d_charges = the (db_charges b)\<rparr>
        in Inr (d, st\<lparr>next_oid := Suc (next_oid st), doctors := doctors st @ [d]\<rparr>)))"

text \<open>The part of \<^verbatim>\<open>POST /api/doctors\<close> that follows the computation of \<open>newId\<close>.\<close>

definition doctor_post_create :: "int \<Rightarrow> doctor_body \<Rightarrow> store \<Rightarrow> doctor reply \<times> store" where
  "doctor_post_create nid b st =
     (case create_doctor nid b st of
        Inl err \<Rightarrow> (Msg 500 ''Server error'', st)
      | Inr (d, st') \<Rightarrow> (Data 201 d, st'))"

text \<open>\<^verbatim>\<open>POST /api/doctors\<close> (admin)\<close>

definition doctor_post :: "string \<Rightarrow> doctor_body \<Rightarrow> store \<Rightarrow> doctor reply \<times> store" where
  "doctor_post role b st =
     (if \<not> admin role then (Msg 401 ''Not authorized as an admin'', st)
      else case findOneId e_id (db_empId b) (employees st) of
        None \<Rightarrow> (Msg 404 ''Employee not found'', st)
      | Some employee \<Rightarrow>
       (case findOneId d_empId (db_empId b) (doctors st) of
          Some doctorExists \<Rightarrow> (Msg 400 ''Doctor already exists with this employee ID'', st)
        | None \<Rightarrow> doctor_post_create (newId d_id (doctors st)) b st))"




text \<open>\<^verbatim>\<open>DELETE /api/doctors/:id\<close> (admin)\<close>

definition doctor_delete :: "string \<Rightarrow> int \<Rightarrow> store \<Rightarrow> unit reply \<times> store" where
  "doctor_delete role did st =
     (if \<not> admin role then (Msg 401 ''Not authorized as an admin'', st)
      else case findOne (\<lambda>d. d_id d = did) (doctors st) of
        None \<Rightarrow> (Msg 404 ''Doctor not found'', st)
      | Some doctor \<Rightarrow>
         (Msg 200 ''Doctor deleted successfully'',
          st\<lparr>doctors := remove_first (\<lambda>d. d_id d = did) (doctors st)\<rparr>))"

subsection \<open>Medicines\<close>

record medicine_body =
  mb_id :: "int option"
  mb_name :: "string option"
  mb_price :: "int option"

text \<open>\<^verbatim>\<open>Medicine.create({ id: newId, name, price })\<close>\<close>

definition create_medicine ::
  "int \<Rightarrow> medicine_body \<Rightarrow> store \<Rightarrow> store_error + (medicine \<times> store)" where
  "create_medicine nid b st =
     (if mb_name b = None \<or> mb_name b = Some [] \<or> mb_price b = None then Inl ValidationError
      else if nid \<in> set (map m_id (medicines st)) then Inl DuplicateKey
      else
       (let m = \<lparr>m_oid = next_oid st, m_id = nid, m_name = the (mb_name b),
                  m_price = the (mb_price b)\<rparr>
        in Inr (m, st\<lparr>next_oid := Suc (next_oid st), medicines := medicines st @ [m]\<rparr>)))"

text \<open>The part of \<^verbatim>\<open>POST /api/medicines\<close> that follows the computation of \<open>newId\<close>.\<close>

definition medicine_post_create :: "int \<Rightarrow> medicine_body \<Rightarrow> store \<Rightarrow> medicine reply \<times> store" where
  "medicine_post_create nid b st =
     (case create_medicine nid b st of
        Inl err \<Rightarrow> (Msg 500 ''Server error'', st)
      | Inr (m, st') \<Rightarrow> (Data 201 m, st'))"

text \<open>\<^verbatim>\<open>POST /api/medicines\<close> (admin)\<close>

definition medicine_post :: "string \<Rightarrow> medicine_body \<Rightarrow> store \<Rightarrow> medicine reply \<times> store" where
  "medicine_post role b st =
     (if \<not> admin role then (Msg 401 ''Not authorized as an admin'', st)
      else medicine_post_create (newId m_id (medicines st)) b st)"

definition patch_medicine :: "medicine_body \<Rightarrow> medicine \<Rightarrow> medicine" where
  "patch_medicine b m =
     m\<lparr>m_id := set_field (mb_id b) (m_id m),
       m_name := set_field (mb_name b) (m_name m),
       m_price := set_field (mb_price b) (m_price m)\<rparr>"

definition update_medicine ::
  "int \<Rightarrow> medicine_body \<Rightarrow> store \<Rightarrow> store_error + (medicine option \<times> store)" where
  "update_medicine mid b st =
     (if mb_name b = Some [] then Inl ValidationError
      else case findOne (\<lambda>m. m_id m = mid) (medicines st) of
        None \<Rightarrow> Inr (None, st)
      | Some m \<Rightarrow>
         (let m' = patch_medicine b m
          in if m_id m' \<noteq> m_id m \<and> m_id m' \<in> set (map m_id (medicines st))
             then Inl DuplicateKey
             else Inr (Some m',
                  st\<lparr>medicines := update_first (\<lambda>x. m_id x = mid) (\<lambda>_. m') (medicines st)\<rparr>)))"

text \<open>\<^verbatim>\<open>PUT /api/medicines/:id\<close> (admin)\<close>

definition medicine_put ::
  "string \<Rightarrow> int \<Rightarrow> medicine_body \<Rightarrow> store \<Rightarrow> medicine option reply \<times> store" where
  "medicine_put role mid b st =
     (if \<not> admin role then (Msg 401 ''Not authorized as an admin'', st)
      else case findOne (\<lambda>m. m_id m = mid) (medicines st) of
        None \<Rightarrow> (Msg 404 ''Medicine not found'', st)
      | Some medicine \<Rightarrow>
         (case update_medicine mid b st of
            Inl err \<Rightarrow> (Msg 500 ''Server error'', st)
          | Inr (updatedMedicine, st') \<Rightarrow> (Data 200 updatedMedicine, st')))"

text \<open>\<^verbatim>\<open>DELETE /api/medicines/:id\<close> (admin)\<close>

definition medicine_delete :: "string \<Rightarrow> int \<Rightarrow> store \<Rightarrow> unit reply \<times> store" where
  "medicine_delete role mid st =
     (if \<not> admin role then (Msg 401 ''Not authorized as an admin'', st)
      else case findOne (\<lambda>m. m_id m = mid) (medicines st) of
        None \<Rightarrow> (Msg 404 ''Medicine not found'', st)
      | Some medicine \<Rightarrow>
         (Msg 200 ''Medicine deleted successfully'',
          st\<lparr>medicines := remove_first (\<lambda>m. m_id m = mid) (medicines st)\<rparr>))"

section \<open>Store invariants, operation sequences and sample data\<close>

text \<open>The integers on which \<open>js_add1\<close> is the successor.\<close>

definition exact_id :: "int \<Rightarrow> bool" where
  "exact_id x = (- (2 ^ 53) \<le> x \<and> x < 2 ^ 53)"

text \<open>Every stored patient's \<open>doctorId\<close> is the \<open>id\<close> of a stored doctor.\<close>

definition doctor_refs_ok :: "store \<Rightarrow> bool" where
  "doctor_refs_ok st = list_all (\<lambda>p. p_doctorId p \<in> set (map d_id (doctors st))) (patients st)"

text \<open>No two stored records of a type share their sequential \<open>id\<close>.\<close>

definition ids_distinct :: "store \<Rightarrow> bool" where
  "ids_distinct st =
     (distinct (map p_id (patients st)) \<and> distinct (map d_id (doctors st)) \<and>
      distinct (map m_id (medicines st)))"

text \<open>Sequences of create and delete requests on the numeric-id routes.\<close>

datatype id_op =
    CreatePatient string patient_body
  | DeletePatient string int
  | CreateDoctor string doctor_body
  | DeleteDoctor string int
  | CreateMedicine string medicine_body
  | DeleteMedicine string int

fun apply_op :: "id_op \<Rightarrow> store \<Rightarrow> store" where
  "apply_op (CreatePatient role b) st = snd (patient_post role b st)"
| "apply_op (DeletePatient role i) st = snd (patient_delete role i st)"
| "apply_op (CreateDoctor role b) st = snd (doctor_post role b st)"
| "apply_op (DeleteDoctor role i) st = snd (doctor_delete role i st)"
| "apply_op (CreateMedicine role b) st = snd (medicine_post role b st)"
| "apply_op (DeleteMedicine role i) st = snd (medicine_delete role i st)"

fun run_ops :: "id_op list \<Rightarrow> store \<Rightarrow> store" where
  "run_ops [] st = st"
| "run_ops (x # xs) st = run_ops xs (apply_op x st)"









text \<open>Sample data: one user, one employee, and what the routes build from them.\<close>

definition sample_store :: store where
  "sample_store = empty_store
     \<lparr>next_oid := 2,
      users := [\<lparr>u_oid = 0, u_id = 1, u_name = ''Asha'', u_email = ''asha@example.com'',
                 u_role = ''patient''\<rparr>],
      employees := [\<lparr>e_oid = 1, e_id = 1, e_userId = 1, e_dob = 0, e_hireDate = 0,
                     e_salary = 100\<rparr>]\<rparr>"

definition sample_doctor_body :: doctor_body where
  "sample_doctor_body = \<lparr>db_id = None, db_empId = Some 1, db_charges = Some 50\<rparr>"

definition sample_patient_body :: patient_body where
  "sample_patient_body =
     \<lparr>pb_id = None, pb_userId = Some 1, pb_wardId = None, pb_doctorId = Some 1,
      pb_dateOfAdm = Some 10, pb_bloodGroup = Some ''A+'', pb_dob = Some 5,
      pb_prescription = None, pb_bedAllocated = None, pb_paymentStatus = None,
      pb_patientProblem = Some ''fever''\<rparr>"

definition sample_medicine_body :: medicine_body where
  "sample_medicine_body = \<lparr>mb_id = None, mb_name = Some ''aspirin'', mb_price = Some 3\<rparr>"

text \<open>The sample store after an admin created a doctor, a patient and a medicine.\<close>

definition clinic_store :: store where
  "clinic_store =
     snd (medicine_post ''admin'' sample_medicine_body
       (snd (patient_post ''admin'' sample_patient_body
         (snd (doctor_post ''admin'' sample_doctor_body sample_store)))))"

text \<open>
  Two configurations of the store library for the examples, and a cast for them that
  reads the strings of decimal digits.
\<close>

definition plain_decimal :: "string \<Rightarrow> int option" where
  "plain_decimal s =
     (if s \<noteq> [] \<and> list_all is_digit s
      then Some (fold (\<lambda>c n. 10 * n + (int (of_char c) - 48)) s 0)
      else None)"

definition loose_env :: env where
  "loose_env = \<lparr>strictQuery = False, strictPopulate = False, castNumber = plain_decimal, now = 20\<rparr>"

definition strict_env :: env where
  "strict_env = \<lparr>strictQuery = True, strictPopulate = True, castNumber = plain_decimal, now = 20\<rparr>"

definition first_assign_body :: assign_body where
  "first_assign_body =
     \<lparr>ab_pat_id = 3, ab_medicine_id = 4, ab_prescription = ''once a day'',
      ab_medicine_qty = JNum 3\<rparr>"

definition second_assign_body :: assign_body where
  "second_assign_body =
     \<lparr>ab_pat_id = 3, ab_medicine_id = 4, ab_prescription = ''twice a day'',
      ab_medicine_qty = JNum 4\<rparr>"

definition five_first :: "medicine list" where
  "five_first = [\<lparr>m_oid = 0, m_id = 5, m_name = ''a'', m_price = 1\<rparr>,
                 \<lparr>m_oid = 1, m_id = 2, m_name = ''b'', m_price = 1\<rparr>,
                 \<lparr>m_oid = 2, m_id = 3, m_name = ''c'', m_price = 1\<rparr>]"

definition sample_visit_body :: visit_body where
  "sample_visit_body = \<lparr>vb_pat_id = 3, vb_doctor_id = 2, vb_visits = JStr ''2026-01-05''\<rparr>"

definition counted_visit_body :: visit_body where
  "counted_visit_body = \<lparr>vb_pat_id = 3, vb_doctor_id = 2, vb_visits = JNum 2\<rparr>"

definition missing_patient_visit_body :: visit_body where
  "missing_patient_visit_body =
     \<lparr>vb_pat_id = 99, vb_doctor_id = 2, vb_visits = JStr ''2026-01-05''\<rparr>"

definition missing_doctor_patient_body :: patient_body where
  "missing_doctor_patient_body = sample_patient_body\<lparr>pb_doctorId := Some 42\<rparr>"

definition missing_patient_assign_body :: assign_body where
  "missing_patient_assign_body =
     \<lparr>ab_pat_id = 99, ab_medicine_id = 4, ab_prescription = ''once a day'',
      ab_medicine_qty = JNum 3\<rparr>"


definition doctor_store :: store where
  "doctor_store = snd (doctor_post ''admin'' sample_doctor_body sample_store)"

definition change_ward_patient_body :: patient_body where
  "change_ward_patient_body =
     \<lparr>pb_id = None, pb_userId = None, pb_wardId = Some 7, pb_doctorId = Some 1,
      pb_dateOfAdm = None, pb_bloodGroup = None, pb_dob = None,
      pb_prescription = Some ''rest'', pb_bedAllocated = None, pb_paymentStatus = Some ''paid'',
      pb_patientProblem = None\<rparr>"

text \<open>
  The clinic store with a visit, an assignment and a ward, documents that another
  client of the store has written with the paths of the schemas.
\<close>

definition full_store :: store where
  "full_store = clinic_store
     \<lparr>next_oid := 8,
      visits := [\<lparr>v_oid = 5, v_patId = 1, v_doctorId = 1, v_visits = 2, v_visitDate = 12,
                  v_remarks = None\<rparr>],
      assignments := [\<lparr>a_oid = 6, a_patId = 1, a_medicineId = 1,
                       a_prescription = ''once a day'', a_medicineQty = 3\<rparr>],
      wards := [\<lparr>w_oid = 7, w_id = 1, w_type = ''icu'', w_charges = 900,
                 w_availability = True, w_maxCap = 4, w_currentOccupancy = 0\<rparr>]\<rparr>"






text \<open>The clinic store after a second employee was hired.\<close>

definition staffed_store :: store where
  "staffed_store = clinic_store
     \<lparr>next_oid := Suc (next_oid clinic_store),
      employees := employees clinic_store @
        [\<lparr>e_oid = next_oid clinic_store, e_id = 2, e_userId = 2, e_dob = 0, e_hireDate = 0,
          e_salary = 120\<rparr>]\<rparr>"

definition other_doctor_body :: doctor_body where
  "other_doctor_body = \<lparr>db_id = None, db_empId = Some 2, db_charges = Some 60\<rparr>"

definition two_doctor_store :: store where
  "two_doctor_store = snd (doctor_post ''admin'' other_doctor_body staffed_store)"

text \<open>
  The clinic store after an admin has set the id of its medicine to \<open>2 ^ 53 + 2\<close> with
  \<^verbatim>\<open>PUT /api/medicines/1\<close>, and after the id was set to \<open>2 ^ 53\<close>.
\<close>

definition big_id_body :: medicine_body where
  "big_id_body = \<lparr>mb_id = Some 9007199254740994, mb_name = None, mb_price = None\<rparr>"

definition big_id_store :: store where
  "big_id_store = snd (medicine_put ''admin'' 1 big_id_body clinic_store)"

definition limit_id_body :: medicine_body where
  "limit_id_body = \<lparr>mb_id = Some 9007199254740992, mb_name = None, mb_price = None\<rparr>"

definition limit_id_store :: store where
  "limit_id_store = snd (medicine_put ''admin'' 1 limit_id_body clinic_store)"

section \<open>Facts about the store operations\<close>

lemma find_Some_mem: "find P xs = Some a \<Longrightarrow> a \<in> set xs \<and> P a"
  by (induction xs) (auto split: if_splits)

lemma find_None_iff_set: "find P xs = None \<longleftrightarrow> (\<forall>x \<in> set xs. \<not> P x)"
  by (induction xs) auto

lemma findById_None_iff: "findById oid i xs = None \<longleftrightarrow> i \<notin> oid ` set xs"
  by (auto simp: findById_def find_None_iff_set)

lemma findOne_None_iff: "findOne P xs = None \<longleftrightarrow> (\<forall>x \<in> set xs. \<not> P x)"
  by (simp add: findOne_def find_None_iff_set)

lemma findOneId_None_iff: "findOneId f i xs = None \<longleftrightarrow> i \<notin> (\<lambda>x. Some (f x)) ` set xs"
  by (cases i) (auto simp: findOneId_def findOne_None_iff)

section \<open>The sequential id allocator\<close>

lemma js_add1_exact: "exact_id x \<Longrightarrow> js_add1 x = x + 1"
  by (simp add: js_add1_def exact_id_def)

lemma js_add1_ge: "x \<le> js_add1 x"
  by (simp add: js_add1_def)

lemma fold_highest:
  fixes f :: "'a \<Rightarrow> int"
  shows "f (fold (\<lambda>y best. if f best < f y then y else best) ys x) = fold max (map f ys) (f x)"
  by (induction ys arbitrary: x) (auto simp: max_def fold_map)

lemma findHighest_Max:
  "findHighest f xs = Some h \<Longrightarrow> f h = Max (f ` set xs)"
proof (cases xs)
  case Nil
  assume "findHighest f xs = Some h"
  with Nil show ?thesis by (simp add: findHighest_def)
next
  case (Cons x ys)
  assume "findHighest f xs = Some h"
  with Cons have "h = fold (\<lambda>y best. if f best < f y then y else best) ys x"
    by (simp add: findHighest_def)
  then have "f h = fold max (map f ys) (f x)" by (simp add: fold_highest)
  also have "\<dots> = Max (set (f x # map f ys))" by (simp only: Max.set_eq_fold)
  finally show ?thesis using Cons by simp
qed

lemma newId_Max: "newId f xs = (if xs = [] then 1 else js_add1 (Max (f ` set xs)))"
proof (cases "findHighest f xs")
  case None
  then show ?thesis by (auto simp: newId_def findHighest_def split: list.splits)
next
  case (Some h)
  then have "xs \<noteq> []" by (auto simp: findHighest_def)
  with Some findHighest_Max [OF Some] show ?thesis by (simp add: newId_def)
qed

lemma newId_ge: "x \<in> set xs \<Longrightarrow> f x \<le> newId f xs"
proof -
  assume a: "x \<in> set xs"
  then have "f x \<le> Max (f ` set xs)" by (intro Max_ge) auto
  also have "\<dots> \<le> js_add1 (Max (f ` set xs))" by (rule js_add1_ge)
  finally show ?thesis using a by (auto simp: newId_Max)
qed

lemma newId_above:
  assumes "newId f xs \<notin> f ` set xs" and "x \<in> set xs"
  shows "f x < newId f xs"
proof -
  from assms have "f x \<noteq> newId f xs" by (metis imageI)
  with newId_ge [OF assms(2), of f] show ?thesis by simp
qed

lemma newId_exact:
  assumes "list_all exact_id (map f xs)"
  shows "newId f xs = (if xs = [] then 1 else Max (f ` set xs) + 1)"
proof (cases "xs = []")
  case True
  then show ?thesis by (simp add: newId_Max)
next
  case False
  then have "Max (f ` set xs) \<in> f ` set xs" by (intro Max_in) auto
  with assms have "exact_id (Max (f ` set xs))" by (auto simp: list_all_iff)
  with False show ?thesis by (simp add: newId_Max js_add1_exact)
qed


lemma patient_post_created:
  assumes "status (fst (patient_post role b st)) = 201"
  shows "\<exists>p. patient_post role b st =
           (Data 201 p, st\<lparr>next_oid := Suc (next_oid st), patients := patients st @ [p]\<rparr>) \<and>
         p_id p = newId p_id (patients st) \<and> p_oid p = next_oid st \<and>
         Some (p_doctorId p) = pb_doctorId b \<and>
         newId p_id (patients st) \<notin> p_id ` set (patients st)"
  using assms
  by (auto simp: patient_post_def patient_post_create_def create_patient_def Let_def
      split: option.splits if_splits)

lemma doctor_post_created:
  assumes "status (fst (doctor_post role b st)) = 201"
  shows "\<exists>d. doctor_post role b st =
           (Data 201 d, st\<lparr>next_oid := Suc (next_oid st), doctors := doctors st @ [d]\<rparr>) \<and>
         d_id d = newId d_id (doctors st) \<and> d_oid d = next_oid st \<and>
         Some (d_empId d) = db_empId b \<and>
         newId d_id (doctors st) \<notin> d_id ` set (doctors st)"
  using assms
  by (auto simp: doctor_post_def doctor_post_create_def create_doctor_def Let_def
      split: option.splits if_splits)

lemma medicine_post_created:
  assumes "status (fst (medicine_post role b st)) = 201"
  shows "\<exists>m. medicine_post role b st =
           (Data 201 m, st\<lparr>next_oid := Suc (next_oid st), medicines := medicines st @ [m]\<rparr>) \<and>
         m_id m = newId m_id (medicines st) \<and> m_oid m = next_oid st \<and>
         newId m_id (medicines st) \<notin> m_id ` set (medicines st)"
  using assms
  by (auto simp: medicine_post_def medicine_post_create_def create_medicine_def Let_def
      split: option.splits if_splits)

text \<open>
  C2, as the code has it. In a collection whose stored ids are integers from \<open>- 2 ^ 53\<close>
  to \<open>2 ^ 53 - 1\<close>, where the addition of the handlers is exact: whenever Create
  Patient, Create Doctor or Create Medicine answers 201, the created record is appended
  to its collection with the id 1 if the collection was empty and the largest stored id
  plus one otherwise. The id depends on the set of stored ids only, not on their order:
  when 5 is the largest stored id the next id is 6.
\<close>

theorem sequential_id_allocation:
  "(list_all exact_id (map p_id (patients st)) \<and>
    status (fst (patient_post role pb st)) = 201 \<longrightarrow>
      (\<exists>p. fst (patient_post role pb st) = Data 201 p \<and>
           patients (snd (patient_post role pb st)) = patients st @ [p] \<and>
           p_id p = (if patients st = [] then 1 else Max (p_id ` set (patients st)) + 1))) \<and>
   (list_all exact_id (map d_id (doctors st)) \<and>
    status (fst (doctor_post role db st)) = 201 \<longrightarrow>
      (\<exists>d. fst (doctor_post role db st) = Data 201 d \<and>
           doctors (snd (doctor_post role db st)) = doctors st @ [d] \<and>
           d_id d = (if doctors st = [] then 1 else Max (d_id ` set (doctors st)) + 1))) \<and>
   (list_all exact_id (map m_id (medicines st)) \<and>
    status (fst (medicine_post role mb st)) = 201 \<longrightarrow>
      (\<exists>m. fst (medicine_post role mb st) = Data 201 m \<and>
           medicines (snd (medicine_post role mb st)) = medicines st @ [m] \<and>
           m_id m = (if medicines st = [] then 1 else Max (m_id ` set (medicines st)) + 1))) \<and>
   (5 \<in> m_id ` set ms \<and> (\<forall>m \<in> set ms. m_id m \<le> 5) \<longrightarrow> newId m_id ms = 6) \<and>
   (m_id ` set ms = m_id ` set ms' \<longrightarrow> newId m_id ms = newId m_id ms')"
proof -
  have p: "\<exists>p. fst (patient_post role pb st) = Data 201 p \<and>
           patients (snd (patient_post role pb st)) = patients st @ [p] \<and>
           p_id p = (if patients st = [] then 1 else Max (p_id ` set (patients st)) + 1)"
    if "list_all exact_id (map p_id (patients st)) \<and>
      status (fst (patient_post role pb st)) = 201"
    using patient_post_created [of role pb st] that by (auto simp: newId_exact)
  have d: "\<exists>d. fst (doctor_post role db st) = Data 201 d \<and>
           doctors (snd (doctor_post role db st)) = doctors st @ [d] \<and>
           d_id d = (if doctors st = [] then 1 else Max (d_id ` set (doctors st)) + 1)"
    if "list_all exact_id (map d_id (doctors st)) \<and>
      status (fst (doctor_post role db st)) = 201"
    using doctor_post_created [of role db st] that by (auto simp: newId_exact)
  have m: "\<exists>m. fst (medicine_post role mb st) = Data 201 m \<and>
           medicines (snd (medicine_post role mb st)) = medicines st @ [m] \<and>
           m_id m = (if medicines st = [] then 1 else Max (m_id ` set (medicines st)) + 1)"
    if "list_all exact_id (map m_id (medicines st)) \<and>
      status (fst (medicine_post role mb st)) = 201"
    using medicine_post_created [of role mb st] that by (auto simp: newId_exact)
  have five: "newId m_id ms = 6" if a: "5 \<in> m_id ` set ms \<and> (\<forall>m \<in> set ms. m_id m \<le> 5)"
  proof -
    from a have ne: "ms \<noteq> []" by auto
    from a have "Max (m_id ` set ms) = 5" by (intro Max_eqI) auto
    with ne show ?thesis by (simp add: newId_Max js_add1_def)
  qed
  have order: "newId m_id ms = newId m_id ms'" if a: "m_id ` set ms = m_id ` set ms'"
  proof -
    from a have "ms = [] \<longleftrightarrow> ms' = []" by (metis image_is_empty set_empty)
    with a show ?thesis by (simp add: newId_Max)
  qed
  from p d m five order show ?thesis by blast
qed

theorem sequential_id_allocation_witness:
  "(\<exists>p. fst (patient_post ''doctor'' sample_patient_body clinic_store) = Data 201 p \<and> p_id p = 2) \<and>
   (\<exists>d. fst (doctor_post ''admin'' sample_doctor_body sample_store) = Data 201 d \<and> d_id d = 1) \<and>
   (\<exists>m. fst (medicine_post ''admin'' sample_medicine_body clinic_store) = Data 201 m \<and> m_id m = 2) \<and>
   newId m_id five_first = 6 \<and> newId m_id (rev five_first) = newId m_id five_first"
proof -
  have h1: "list_all exact_id (map p_id (patients clinic_store)) \<and>
      status (fst (patient_post ''doctor'' sample_patient_body clinic_store)) = 201"
    by code_simp
  have h2: "list_all exact_id (map d_id (doctors sample_store)) \<and>
      status (fst (doctor_post ''admin'' sample_doctor_body sample_store)) = 201"
    by code_simp
  have h3: "list_all exact_id (map m_id (medicines clinic_store)) \<and>
      status (fst (medicine_post ''admin'' sample_medicine_body clinic_store)) = 201"
    by code_simp
  have h4: "5 \<in> m_id ` set five_first \<and> (\<forall>m \<in> set five_first. m_id m \<le> 5)"
    by (simp add: five_first_def)
  have e1: "map p_id (patients clinic_store) = [1]" by code_simp
  have e2: "doctors sample_store = []" by code_simp
  have e3: "map m_id (medicines clinic_store) = [1]" by code_simp
  have s1: "p_id ` set (patients clinic_store) = {1}" "patients clinic_store \<noteq> []"
    using e1 by (auto simp flip: set_map)
  have s3: "m_id ` set (medicines clinic_store) = {1}" "medicines clinic_store \<noteq> []"
    using e3 by (auto simp flip: set_map)
  note a = sequential_id_allocation [of clinic_store "''doctor''" sample_patient_body
      sample_doctor_body sample_medicine_body five_first "rev five_first"]
  note b = sequential_id_allocation [of sample_store "''admin''" sample_patient_body
      sample_doctor_body sample_medicine_body five_first "rev five_first"]
  note c = sequential_id_allocation [of clinic_store "''admin''" sample_patient_body
      sample_doctor_body sample_medicine_body five_first "rev five_first"]
  have c1: "\<exists>p. fst (patient_post ''doctor'' sample_patient_body clinic_store) = Data 201 p \<and>
      p_id p = 2"
    using a [THEN conjunct1] h1 by (auto simp: s1)
  have c2: "\<exists>d. fst (doctor_post ''admin'' sample_doctor_body sample_store) = Data 201 d \<and>
      d_id d = 1"
    using b [THEN conjunct2, THEN conjunct1] h2 by (auto simp: e2)
  have c3: "\<exists>m. fst (medicine_post ''admin'' sample_medicine_body clinic_store) = Data 201 m \<and>
      m_id m = 2"
    using c [THEN conjunct2, THEN conjunct2, THEN conjunct1] h3 by (auto simp: s3)
  have c4: "newId m_id five_first = 6"
    using a [THEN conjunct2, THEN conjunct2, THEN conjunct2, THEN conjunct1] h4 by simp
  have c5: "newId m_id (rev five_first) = newId m_id five_first"
    using a [THEN conjunct2, THEN conjunct2, THEN conjunct2, THEN conjunct2] by simp
  from c1 c2 c3 c4 c5 show ?thesis by (intro conjI)
qed

text \<open>
  The largest stored medicine id is \<open>2 ^ 53 + 2\<close>: Create Medicine answers 201 and the
  new id is \<open>2 ^ 53 + 4\<close>, the largest stored id plus two. When it is \<open>2 ^ 53\<close>, the
  computed id is \<open>2 ^ 53\<close> again, the insert is rejected and the answer is 500.
\<close>

theorem id_beyond_exact_range_is_not_successor:
  "map m_id (medicines big_id_store) = [9007199254740994] \<and>
   status (fst (medicine_post ''admin'' sample_medicine_body big_id_store)) = 201 \<and>
   map m_id (medicines (snd (medicine_post ''admin'' sample_medicine_body big_id_store)))
     = [9007199254740994, 9007199254740996] \<and>
   map m_id (medicines limit_id_store) = [9007199254740992] \<and>
   status (fst (medicine_post ''admin'' sample_medicine_body limit_id_store)) = 500"
  by code_simp

section \<open>Assign Medicine: what is stored\<close>

lemma insert_assignment_fails:
  "insert_assignment (new_MedicineAssigned b) st = Inl ValidationError"
  by (simp add: insert_assignment_def validate_draft_def new_MedicineAssigned_def)

lemma update_first_head:
  "find (\<lambda>a. True) xs = Some x \<Longrightarrow> oid x' = oid x \<Longrightarrow>
     update_first (\<lambda>y. oid y = oid x') (\<lambda>_. x') xs = x' # tl xs"
  by (cases xs) auto

lemma assign_post_quantities:
  "map a_medicineQty (assignments (snd (assign_post e role b st))) =
     map a_medicineQty (assignments st)"
proof (cases "findOne_assignment e b st")
  case None
  then show ?thesis
    by (auto simp: assign_post_def insert_assignment_fails split: option.splits)
next
  case (Some x)
  then have f: "find (\<lambda>a. True) (assignments st) = Some x"
    by (auto simp: findOne_assignment_def findOne_def split: if_splits)
  then have xs: "assignments st = x # tl (assignments st)"
    by (cases "assignments st") auto
  let ?x' = "x\<lparr>a_prescription := ab_prescription b\<rparr>"
  let ?st' = "st\<lparr>assignments :=
      update_first (\<lambda>y. a_oid y = a_oid x) (\<lambda>_. ?x') (assignments st)\<rparr>"
  have u: "update_first (\<lambda>y. a_oid y = a_oid x) (\<lambda>_. ?x') (assignments st)
      = ?x' # tl (assignments st)"
    using update_first_head [OF f, of a_oid ?x'] by simp
  have "map a_medicineQty (?x' # tl (assignments st)) = map a_medicineQty (x # tl (assignments st))"
    by simp
  with xs have m: "map a_medicineQty (?x' # tl (assignments st)) = map a_medicineQty (assignments st)"
    by simp
  have "snd (assign_post e role b st) = st \<or> snd (assign_post e role b st) = ?st'"
    using Some
    by (simp add: assign_post_def save_assignment_def Let_def split: option.splits)
  then show ?thesis
  proof
    assume "snd (assign_post e role b st) = st"
    then show ?thesis by simp
  next
    assume "snd (assign_post e role b st) = ?st'"
    then have "assignments (snd (assign_post e role b st)) = ?x' # tl (assignments st)"
      by (simp add: u)
    then show ?thesis by (simp only: m)
  qed
qed

text \<open>
  C1. Assign Medicine stores no quantity. The handler builds and updates documents under
  the keys \<^verbatim>\<open>pat_id\<close>, \<^verbatim>\<open>medicine_id\<close> and \<^verbatim>\<open>medicine_qty\<close>, which are not paths of
  the schema: a new assignment lacks the required \<open>patId\<close>, \<open>medicineId\<close> and
  \<open>medicineQty\<close> and is rejected, and the sum written to an existing one is not
  persisted. For every configuration of the store library, the two requests of the
  example, with quantities 3 and 4 for a stored patient and a stored medicine, are both
  answered 500 and leave the store without an assignment; no request ever changes the
  list of stored quantities; and in a store that holds an assignment of the medicine to
  the patient with quantity 3, the request with quantity 4 leaves the quantity 3.
\<close>

theorem assign_post_never_merges:
  "assignments clinic_store = [] \<and>
   status (fst (assign_post e ''doctor'' first_assign_body clinic_store)) = 500 \<and>
   snd (assign_post e ''doctor'' first_assign_body clinic_store) = clinic_store \<and>
   status (fst (assign_post e ''doctor'' second_assign_body clinic_store)) = 500 \<and>
   snd (assign_post e ''doctor'' second_assign_body clinic_store) = clinic_store \<and>
   map a_medicineQty (assignments (snd (assign_post e role b st))) =
     map a_medicineQty (assignments st) \<and>
   map a_medicineQty (assignments full_store) = [3] \<and>
   map a_medicineQty (assignments (snd (assign_post e ''doctor'' second_assign_body full_store)))
     = [3]"
proof -
  have a: "assignments clinic_store = []" by code_simp
  have q: "map a_medicineQty (assignments full_store) = [3]" by code_simp
  have p: "findById p_oid 3 (patients clinic_store) \<noteq> None" by code_simp
  have m: "findById m_oid 4 (medicines clinic_store) \<noteq> None" by code_simp
  have n: "findOne_assignment e b' clinic_store = None" for b'
    by (simp add: findOne_assignment_def findOne_def a)
  have r1: "assign_post e ''doctor'' first_assign_body clinic_store
      = (Msg 500 ''Server Error'', clinic_store)"
    using p m
    by (auto simp: assign_post_def first_assign_body_def is_clinical_def n
        insert_assignment_fails)
  have r2: "assign_post e ''doctor'' second_assign_body clinic_store
      = (Msg 500 ''Server Error'', clinic_store)"
    using p m
    by (auto simp: assign_post_def second_assign_body_def is_clinical_def n
        insert_assignment_fails)
  show ?thesis by (simp add: a r1 r2 q assign_post_quantities)
qed

section \<open>Record Doctor Visit\<close>

lemma insert_visit_fails: "insert_visit (new_DoctorVisit e n) st = Inl ValidationError"
  by (simp add: insert_visit_def new_DoctorVisit_def)

lemma visit_post_store: "snd (visit_post e role b st) = st"
  by (auto simp: visit_post_def insert_visit_fails split: option.splits)

lemma visit_post_status: "status (fst (visit_post e role b st)) \<in> {400, 404, 500}"
  by (auto simp: visit_post_def insert_visit_fails split: option.splits)

lemma visit_post_missing:
  assumes "not_empty (vb_visits b)"
    and "vb_pat_id b \<notin> p_oid ` set (patients st) \<or> vb_doctor_id b \<notin> d_oid ` set (doctors st)"
  shows "visit_post e role b st = (Msg 404 ''Patient not found'', st) \<or>
         visit_post e role b st = (Msg 404 ''Doctor not found'', st)"
  using assms
  by (auto simp: visit_post_def findById_None_iff [symmetric] split: option.splits)

text \<open>
  C3. Record Doctor Visit answers 404 to a request with visit information that names a
  missing patient or a missing doctor, but it never stores a visit. The handler builds the document under the keys \<^verbatim>\<open>pat_id\<close> and
  \<^verbatim>\<open>doctor_id\<close>, which are not paths of the schema, so the required \<open>patId\<close> and
  \<open>doctorId\<close> are missing and the insert is rejected. For every configuration of the
  store library, every request leaves the store as it was and is answered 400, 404 or
  500; the same tuple for a stored patient and doctor, submitted twice, is answered 500
  both times, with a date string and with a number as visit information.
\<close>

theorem visit_post_never_stores:
  "(not_empty (vb_visits b) \<and>
    (vb_pat_id b \<notin> p_oid ` set (patients st) \<or> vb_doctor_id b \<notin> d_oid ` set (doctors st)) \<longrightarrow>
      is_NotFound (fst (visit_post e role b st))) \<and>
   snd (visit_post e role b st) = st \<and>
   status (fst (visit_post e role b st)) \<in> {400, 404, 500} \<and>
   visits clinic_store = [] \<and>
   status (fst (visit_post e ''doctor'' sample_visit_body clinic_store)) = 500 \<and>
   status (fst (visit_post e ''doctor'' sample_visit_body
      (snd (visit_post e ''doctor'' sample_visit_body clinic_store)))) = 500 \<and>
   status (fst (visit_post e ''doctor'' counted_visit_body clinic_store)) = 500 \<and>
   status (fst (visit_post e ''doctor'' counted_visit_body
      (snd (visit_post e ''doctor'' counted_visit_body clinic_store)))) = 500 \<and>
   visits (snd (visit_post e ''doctor'' sample_visit_body
      (snd (visit_post e ''doctor'' sample_visit_body clinic_store)))) = []"
proof -
  have v: "visits clinic_store = []" by code_simp
  have p: "findById p_oid 3 (patients clinic_store) \<noteq> None" by code_simp
  have d: "findById d_oid 2 (doctors clinic_store) \<noteq> None" by code_simp
  have n: "findOne_visit e k clinic_store = None" for k
    by (simp add: findOne_visit_def findOne_def v)
  have r1: "status (fst (visit_post e ''doctor'' sample_visit_body clinic_store)) = 500"
    using p d
    by (auto simp: visit_post_def sample_visit_body_def n insert_visit_fails
        split: option.splits)
  have r2: "status (fst (visit_post e ''doctor'' counted_visit_body clinic_store)) = 500"
    using p d
    by (auto simp: visit_post_def counted_visit_body_def n insert_visit_fails
        split: option.splits)
  have nf: "is_NotFound (fst (visit_post e role b st))"
    if "not_empty (vb_visits b) \<and>
      (vb_pat_id b \<notin> p_oid ` set (patients st) \<or> vb_doctor_id b \<notin> d_oid ` set (doctors st))"
    using visit_post_missing [where b = b and st = st and e = e and role = role] that
    by (auto simp: is_NotFound_def)
  have rest: "snd (visit_post e role b st) = st \<and>
      status (fst (visit_post e role b st)) \<in> {400, 404, 500} \<and>
      visits clinic_store = [] \<and>
      status (fst (visit_post e ''doctor'' sample_visit_body clinic_store)) = 500 \<and>
      status (fst (visit_post e ''doctor'' sample_visit_body
         (snd (visit_post e ''doctor'' sample_visit_body clinic_store)))) = 500 \<and>
      status (fst (visit_post e ''doctor'' counted_visit_body clinic_store)) = 500 \<and>
      status (fst (visit_post e ''doctor'' counted_visit_body
         (snd (visit_post e ''doctor'' counted_visit_body clinic_store)))) = 500 \<and>
      visits (snd (visit_post e ''doctor'' sample_visit_body
         (snd (visit_post e ''doctor'' sample_visit_body clinic_store)))) = []"
    using visit_post_status [of e role b st] by (simp add: visit_post_store v r1 r2)
  from nf have "not_empty (vb_visits b) \<and>
      (vb_pat_id b \<notin> p_oid ` set (patients st) \<or> vb_doctor_id b \<notin> d_oid ` set (doctors st)) \<longrightarrow>
        is_NotFound (fst (visit_post e role b st))"
    by blast
  then show ?thesis using rest by (rule conjI)
qed

theorem visit_post_never_stores_witness:
  "is_NotFound (fst (visit_post loose_env ''doctor'' missing_patient_visit_body clinic_store)) \<and>
   snd (visit_post loose_env ''doctor'' missing_patient_visit_body clinic_store) = clinic_store"
proof -
  have h: "not_empty (vb_visits missing_patient_visit_body) \<and>
      (vb_pat_id missing_patient_visit_body \<notin> p_oid ` set (patients clinic_store) \<or>
       vb_doctor_id missing_patient_visit_body \<notin> d_oid ` set (doctors clinic_store))"
    by code_simp
  note t = visit_post_never_stores [where b = missing_patient_visit_body and st = clinic_store
      and e = loose_env and role = "''doctor''"]
  have a: "is_NotFound
      (fst (visit_post loose_env ''doctor'' missing_patient_visit_body clinic_store))"
    using t [THEN conjunct1] h by blast
  have b: "snd (visit_post loose_env ''doctor'' missing_patient_visit_body clinic_store)
      = clinic_store"
    using t [THEN conjunct2, THEN conjunct1] .
  from a b show ?thesis by (rule conjI)
qed

section \<open>Create Patient with a missing reference\<close>

text \<open>
  C4. When the payload's \<open>userId\<close> is the id of no stored user, or its \<open>doctorId\<close> the id
  of no stored doctor, Create Patient answers 404 and returns the store as it was: no
  patient is inserted and the next patient id is the same as before.
\<close>

theorem patient_post_missing_reference:
  assumes "pb_userId b \<notin> (\<lambda>u. Some (u_id u)) ` set (users st) \<or>
           pb_doctorId b \<notin> (\<lambda>d. Some (d_id d)) ` set (doctors st)"
  shows "is_NotFound (fst (patient_post role b st)) \<and>
         snd (patient_post role b st) = st \<and>
         patients (snd (patient_post role b st)) = patients st \<and>
         newId p_id (patients (snd (patient_post role b st))) = newId p_id (patients st)"
proof -
  from assms have "findOneId u_id (pb_userId b) (users st) = None \<or>
      findOneId d_id (pb_doctorId b) (doctors st) = None"
    by (simp add: findOneId_None_iff)
  then have "patient_post role b st = (Msg 404 ''User not found'', st) \<or>
      patient_post role b st = (Msg 404 ''Doctor not found'', st)"
    by (auto simp: patient_post_def split: option.splits)
  then show ?thesis by (auto simp: is_NotFound_def)
qed

theorem patient_post_missing_reference_witness:
  "is_NotFound (fst (patient_post ''admin'' missing_doctor_patient_body clinic_store)) \<and>
   snd (patient_post ''admin'' missing_doctor_patient_body clinic_store) = clinic_store \<and>
   patients (snd (patient_post ''admin'' missing_doctor_patient_body clinic_store))
     = patients clinic_store"
proof -
  have h: "pb_userId missing_doctor_patient_body \<notin> (\<lambda>u. Some (u_id u)) ` set (users clinic_store) \<or>
      pb_doctorId missing_doctor_patient_body \<notin> (\<lambda>d. Some (d_id d)) ` set (doctors clinic_store)"
    by code_simp
  from patient_post_missing_reference [OF h, of "''admin''"] show ?thesis by simp
qed

section \<open>Access policy of the assignment and visit routes\<close>

text \<open>
  C10. Assign Medicine checks the role before it looks anything up: a request that
  passes the field validators (a prescription text, a numeric quantity), from a role
  other than admin, doctor and staff, is answered 401 and the store is returned
  unchanged, whatever patient and medicine it names; and whenever the answer is 404 the
  role is one of the three.
\<close>

theorem assign_post_role_before_lookup:
  "(ab_prescription b \<noteq> [] \<and> isNumeric (ab_medicine_qty b) \<and>
    role \<notin> {''admin'', ''doctor'', ''staff''} \<longrightarrow>
      is_Forbidden (fst (assign_post e role b st)) \<and>
      \<not> is_NotFound (fst (assign_post e role b st)) \<and>
      snd (assign_post e role b st) = st) \<and>
   (is_NotFound (fst (assign_post e role b st)) \<longrightarrow> role \<in> {''admin'', ''doctor'', ''staff''})"
proof -
  have forbidden: "assign_post e role b st = (Msg 401 ''Not authorized to assign medicines'', st)"
    if "ab_prescription b \<noteq> []" and "isNumeric (ab_medicine_qty b)"
      and "role \<notin> {''admin'', ''doctor'', ''staff''}"
    using that by (simp add: assign_post_def is_clinical_def)
  have "role \<in> {''admin'', ''doctor'', ''staff''}"
    if nf: "is_NotFound (fst (assign_post e role b st))"
  proof (rule ccontr)
    assume r: "role \<notin> {''admin'', ''doctor'', ''staff''}"
    then have "\<not> is_clinical role" by (simp add: is_clinical_def)
    then have "status (fst (assign_post e role b st)) \<noteq> 404"
      by (simp add: assign_post_def)
    with nf show False by (simp add: is_NotFound_def)
  qed
  with forbidden show ?thesis by (auto simp: is_Forbidden_def is_NotFound_def)
qed

theorem assign_post_role_before_lookup_witness:
  "is_Forbidden (fst (assign_post loose_env ''patient'' missing_patient_assign_body clinic_store)) \<and>
   snd (assign_post loose_env ''patient'' missing_patient_assign_body clinic_store)
     = clinic_store \<and>
   is_NotFound (fst (assign_post loose_env ''staff'' missing_patient_assign_body clinic_store)) \<and>
   ''staff'' \<in> {''admin'', ''doctor'', ''staff''}"
proof -
  have h1: "ab_prescription missing_patient_assign_body \<noteq> [] \<and>
      isNumeric (ab_medicine_qty missing_patient_assign_body) \<and>
      ''patient'' \<notin> {''admin'', ''doctor'', ''staff''}"
    by code_simp
  have h2: "is_NotFound
      (fst (assign_post loose_env ''staff'' missing_patient_assign_body clinic_store))"
    by code_simp
  from assign_post_role_before_lookup
      [of missing_patient_assign_body "''patient''" loose_env clinic_store] h1
    assign_post_role_before_lookup
      [of missing_patient_assign_body "''staff''" loose_env clinic_store] h2
  show ?thesis by blast
qed

text \<open>
  C8. The role check of Assign Medicine admits admin, doctor and staff and answers 401
  to every other role. Record Doctor Visit has no role check: its answer does not depend
  on the role, and a request from the role \<open>patient\<close> that names a missing patient is
  answered 404, where Assign Medicine answers the same role and a missing patient 401.
\<close>

theorem visit_post_ignores_role:
  "''patient'' \<notin> {''admin'', ''doctor'', ''staff''} \<and>
   visit_post e role b st = visit_post e role' b st \<and>
   is_NotFound (fst (visit_post e ''patient'' missing_patient_visit_body clinic_store)) \<and>
   \<not> is_Forbidden (fst (visit_post e ''patient'' missing_patient_visit_body clinic_store)) \<and>
   is_Forbidden (fst (assign_post e ''patient'' missing_patient_assign_body clinic_store))"
proof -
  have p: "findById p_oid 99 (patients clinic_store) = None" by code_simp
  have v: "visit_post e ''patient'' missing_patient_visit_body clinic_store
      = (Msg 404 ''Patient not found'', clinic_store)"
    by (simp add: visit_post_def missing_patient_visit_body_def p)
  have a: "assign_post e ''patient'' missing_patient_assign_body clinic_store
      = (Msg 401 ''Not authorized to assign medicines'', clinic_store)"
    by (simp add: assign_post_def missing_patient_assign_body_def is_clinical_def)
  have i: "visit_post e role b st = visit_post e role' b st"
    by (simp add: visit_post_def)
  show ?thesis by (simp add: v a is_NotFound_def is_Forbidden_def) (rule i)
qed

section \<open>Unique keys\<close>









section \<open>Reuse of sequential ids\<close>

lemma set_remove_first: "set (remove_first P xs) \<subseteq> set xs"
  by (induction xs) auto

lemma distinct_map_remove_first:
  "distinct (map f xs) \<Longrightarrow> distinct (map f (remove_first P xs))"
proof (induction xs)
  case Nil
  then show ?case by simp
next
  case (Cons x xs)
  have "f ` set (remove_first P xs) \<subseteq> f ` set xs"
    using set_remove_first [of P xs] by blast
  with Cons show ?case by auto
qed

lemma patient_post_failed:
  "status (fst (patient_post role b st)) \<noteq> 201 \<Longrightarrow> snd (patient_post role b st) = st"
  by (auto simp: patient_post_def patient_post_create_def split: option.splits sum.splits)

lemma doctor_post_failed:
  "status (fst (doctor_post role b st)) \<noteq> 201 \<Longrightarrow> snd (doctor_post role b st) = st"
  by (auto simp: doctor_post_def doctor_post_create_def split: option.splits sum.splits)

lemma medicine_post_failed:
  "status (fst (medicine_post role b st)) \<noteq> 201 \<Longrightarrow> snd (medicine_post role b st) = st"
  by (auto simp: medicine_post_def medicine_post_create_def split: option.splits sum.splits)

lemma patient_post_ids: "ids_distinct st \<Longrightarrow> ids_distinct (snd (patient_post role b st))"
proof (cases "status (fst (patient_post role b st)) = 201")
  case True
  assume d: "ids_distinct st"
  from patient_post_created [OF True] obtain p where
    "patient_post role b st =
       (Data 201 p, st\<lparr>next_oid := Suc (next_oid st), patients := patients st @ [p]\<rparr>)"
    "p_id p = newId p_id (patients st)"
    "newId p_id (patients st) \<notin> p_id ` set (patients st)" by blast
  with d show ?thesis by (simp add: ids_distinct_def)
next
  case False
  assume "ids_distinct st"
  with patient_post_failed [OF False] show ?thesis by simp
qed

lemma doctor_post_ids: "ids_distinct st \<Longrightarrow> ids_distinct (snd (doctor_post role b st))"
proof (cases "status (fst (doctor_post role b st)) = 201")
  case True
  assume d: "ids_distinct st"
  from doctor_post_created [OF True] obtain x where
    "doctor_post role b st =
       (Data 201 x, st\<lparr>next_oid := Suc (next_oid st), doctors := doctors st @ [x]\<rparr>)"
    "d_id x = newId d_id (doctors st)"
    "newId d_id (doctors st) \<notin> d_id ` set (doctors st)" by blast
  with d show ?thesis by (simp add: ids_distinct_def)
next
  case False
  assume "ids_distinct st"
  with doctor_post_failed [OF False] show ?thesis by simp
qed

lemma medicine_post_ids: "ids_distinct st \<Longrightarrow> ids_distinct (snd (medicine_post role b st))"
proof (cases "status (fst (medicine_post role b st)) = 201")
  case True
  assume d: "ids_distinct st"
  from medicine_post_created [OF True] obtain m where
    "medicine_post role b st =
       (Data 201 m, st\<lparr>next_oid := Suc (next_oid st), medicines := medicines st @ [m]\<rparr>)"
    "m_id m = newId m_id (medicines st)"
    "newId m_id (medicines st) \<notin> m_id ` set (medicines st)" by blast
  with d show ?thesis by (simp add: ids_distinct_def)
next
  case False
  assume "ids_distinct st"
  with medicine_post_failed [OF False] show ?thesis by simp
qed

lemma patient_delete_ids: "ids_distinct st \<Longrightarrow> ids_distinct (snd (patient_delete role i st))"
  by (auto simp: patient_delete_def ids_distinct_def distinct_map_remove_first
      split: option.splits)

lemma doctor_delete_ids: "ids_distinct st \<Longrightarrow> ids_distinct (snd (doctor_delete role i st))"
  by (auto simp: doctor_delete_def ids_distinct_def distinct_map_remove_first
      split: option.splits)

lemma medicine_delete_ids: "ids_distinct st \<Longrightarrow> ids_distinct (snd (medicine_delete role i st))"
  by (auto simp: medicine_delete_def ids_distinct_def distinct_map_remove_first
      split: option.splits)

lemma apply_op_ids: "ids_distinct st \<Longrightarrow> ids_distinct (apply_op x st)"
  by (cases x)
    (simp_all add: patient_post_ids doctor_post_ids medicine_post_ids patient_delete_ids
      doctor_delete_ids medicine_delete_ids)

lemma run_ops_ids: "ids_distinct st \<Longrightarrow> ids_distinct (run_ops ops st)"
  by (induction ops arbitrary: st) (simp_all add: apply_op_ids)

lemma remove_first_last:
  "\<forall>x \<in> set xs. \<not> P x \<Longrightarrow> P a \<Longrightarrow> remove_first P (xs @ [a]) = xs"
  by (induction xs) auto

lemma find_last: "\<forall>x \<in> set xs. \<not> P x \<Longrightarrow> P a \<Longrightarrow> find P (xs @ [a]) = Some a"
  by (induction xs) auto

lemma patient_post_again:
  assumes "status (fst (patient_post role b st)) = 201"
    and "users st' = users st" and "doctors st' = doctors st" and "patients st' = patients st"
  shows "\<exists>p'. fst (patient_post role b st') = Data 201 p' \<and>
    p_id p' = newId p_id (patients st) \<and> p_oid p' = next_oid st'"
  using assms
  by (auto simp: patient_post_def patient_post_create_def create_patient_def Let_def
      split: option.splits if_splits)

lemma doctor_post_again:
  assumes "status (fst (doctor_post role b st)) = 201"
    and "employees st' = employees st" and "doctors st' = doctors st"
  shows "\<exists>d'. fst (doctor_post role b st') = Data 201 d' \<and>
    d_id d' = newId d_id (doctors st) \<and> d_oid d' = next_oid st'"
  using assms
  by (auto simp: doctor_post_def doctor_post_create_def create_doctor_def Let_def
      split: option.splits if_splits)

lemma medicine_post_again:
  assumes "status (fst (medicine_post role b st)) = 201"
    and "medicines st' = medicines st"
  shows "\<exists>m'. fst (medicine_post role b st') = Data 201 m' \<and>
    m_id m' = newId m_id (medicines st) \<and> m_oid m' = next_oid st'"
  using assms
  by (auto simp: medicine_post_def medicine_post_create_def create_medicine_def Let_def
      split: option.splits if_splits)

lemma patient_id_reassigned:
  assumes s: "status (fst (patient_post role b st)) = 201"
  shows "\<exists>p p'. fst (patient_post role b st) = Data 201 p \<and>
    status (fst (patient_delete ''admin'' (p_id p) (snd (patient_post role b st)))) = 200 \<and>
    fst (patient_post role b
      (snd (patient_delete ''admin'' (p_id p) (snd (patient_post role b st))))) = Data 201 p' \<and>
    p_id p' = p_id p \<and> p_oid p' \<noteq> p_oid p"
proof -
  from patient_post_created [OF s] obtain p where
    r: "patient_post role b st =
       (Data 201 p, st\<lparr>next_oid := Suc (next_oid st), patients := patients st @ [p]\<rparr>)"
    and k: "p_id p = newId p_id (patients st)" and o: "p_oid p = next_oid st"
    and fresh: "newId p_id (patients st) \<notin> p_id ` set (patients st)" by blast
  define st1 where "st1 = st\<lparr>next_oid := Suc (next_oid st), patients := patients st @ [p]\<rparr>"
  define st2 where "st2 = st\<lparr>next_oid := Suc (next_oid st)\<rparr>"
  from fresh k have none: "\<forall>x \<in> set (patients st). \<not> p_id x = p_id p" by (metis imageI)
  have del: "patient_delete ''admin'' (p_id p) st1 = (Msg 200 ''Patient deleted successfully'', st2)"
    using find_last [OF none, of p] remove_first_last [OF none, of p]
    by (simp add: patient_delete_def admin_def findOne_def st1_def st2_def)
  have same: "users st2 = users st" "doctors st2 = doctors st" "patients st2 = patients st"
    by (simp_all add: st2_def)
  from patient_post_again [OF s, of st2] same obtain p' where
    again: "fst (patient_post role b st2) = Data 201 p'" "p_id p' = newId p_id (patients st)"
    "p_oid p' = next_oid st2" by auto
  have r1: "patient_post role b st = (Data 201 p, st1)" by (simp add: r st1_def)
  have a1: "fst (patient_post role b st) = Data 201 p"
    and a2: "snd (patient_post role b st) = st1" by (simp_all add: r1)
  have a3: "status (fst (patient_delete ''admin'' (p_id p) st1)) = 200"
    and a4: "snd (patient_delete ''admin'' (p_id p) st1) = st2"
    by (simp_all only: del fst_conv snd_conv status.simps)
  have a5: "p_id p' = p_id p" using again(2) k by simp
  have a6: "p_oid p' \<noteq> p_oid p" using again(3) o by (simp add: st2_def)
  show ?thesis
    apply (rule exI [of _ p], rule exI [of _ "p'"])
    apply (simp only: a2 a4)
    using a1 a3 again(1) a5 a6 by blast
qed

lemma doctor_id_reassigned:
  assumes s: "status (fst (doctor_post role b st)) = 201"
  shows "\<exists>d d'. fst (doctor_post role b st) = Data 201 d \<and>
    status (fst (doctor_delete ''admin'' (d_id d) (snd (doctor_post role b st)))) = 200 \<and>
    fst (doctor_post role b
      (snd (doctor_delete ''admin'' (d_id d) (snd (doctor_post role b st))))) = Data 201 d' \<and>
    d_id d' = d_id d \<and> d_oid d' \<noteq> d_oid d"
proof -
  from doctor_post_created [OF s] obtain d where
    r: "doctor_post role b st =
       (Data 201 d, st\<lparr>next_oid := Suc (next_oid st), doctors := doctors st @ [d]\<rparr>)"
    and k: "d_id d = newId d_id (doctors st)" and o: "d_oid d = next_oid st"
    and fresh: "newId d_id (doctors st) \<notin> d_id ` set (doctors st)" by blast
  define st1 where "st1 = st\<lparr>next_oid := Suc (next_oid st), doctors := doctors st @ [d]\<rparr>"
  define st2 where "st2 = st\<lparr>next_oid := Suc (next_oid st)\<rparr>"
  from fresh k have none: "\<forall>x \<in> set (doctors st). \<not> d_id x = d_id d" by (metis imageI)
  have del: "doctor_delete ''admin'' (d_id d) st1 = (Msg 200 ''Doctor deleted successfully'', st2)"
    using find_last [OF none, of d] remove_first_last [OF none, of d]
    by (simp add: doctor_delete_def admin_def findOne_def st1_def st2_def)
  have same: "employees st2 = employees st" "doctors st2 = doctors st"
    by (simp_all add: st2_def)
  from doctor_post_again [OF s, of st2] same obtain d' where
    again: "fst (doctor_post role b st2) = Data 201 d'" "d_id d' = newId d_id (doctors st)"
    "d_oid d' = next_oid st2" by auto
  have r1: "doctor_post role b st = (Data 201 d, st1)" by (simp add: r st1_def)
  have a1: "fst (doctor_post role b st) = Data 201 d"
    and a2: "snd (doctor_post role b st) = st1" by (simp_all add: r1)
  have a3: "status (fst (doctor_delete ''admin'' (d_id d) st1)) = 200"
    and a4: "snd (doctor_delete ''admin'' (d_id d) st1) = st2"
    by (simp_all only: del fst_conv snd_conv status.simps)
  have a5: "d_id d' = d_id d" using again(2) k by simp
  have a6: "d_oid d' \<noteq> d_oid d" using again(3) o by (simp add: st2_def)
  show ?thesis
    apply (rule exI [of _ d], rule exI [of _ "d'"])
    apply (simp only: a2 a4)
    using a1 a3 again(1) a5 a6 by blast
qed

lemma medicine_id_reassigned:
  assumes s: "status (fst (medicine_post role b st)) = 201"
  shows "\<exists>m m'. fst (medicine_post role b st) = Data 201 m \<and>
    status (fst (medicine_delete ''admin'' (m_id m) (snd (medicine_post role b st)))) = 200 \<and>
    fst (medicine_post role b
      (snd (medicine_delete ''admin'' (m_id m) (snd (medicine_post role b st))))) = Data 201 m' \<and>
    m_id m' = m_id m \<and> m_oid m' \<noteq> m_oid m"
proof -
  from medicine_post_created [OF s] obtain m where
    r: "medicine_post role b st =
       (Data 201 m, st\<lparr>next_oid := Suc (next_oid st), medicines := medicines st @ [m]\<rparr>)"
    and k: "m_id m = newId m_id (medicines st)" and o: "m_oid m = next_oid st"
    and fresh: "newId m_id (medicines st) \<notin> m_id ` set (medicines st)" by blast
  define st1 where "st1 = st\<lparr>next_oid := Suc (next_oid st), medicines := medicines st @ [m]\<rparr>"
  define st2 where "st2 = st\<lparr>next_oid := Suc (next_oid st)\<rparr>"
  from fresh k have none: "\<forall>x \<in> set (medicines st). \<not> m_id x = m_id m" by (metis imageI)
  have del: "medicine_delete ''admin'' (m_id m) st1 = (Msg 200 ''Medicine deleted successfully'', st2)"
    using find_last [OF none, of m] remove_first_last [OF none, of m]
    by (simp add: medicine_delete_def admin_def findOne_def st1_def st2_def)
  have same: "medicines st2 = medicines st"
    by (simp_all add: st2_def)
  from medicine_post_again [OF s, of st2] same obtain m' where
    again: "fst (medicine_post role b st2) = Data 201 m'" "m_id m' = newId m_id (medicines st)"
    "m_oid m' = next_oid st2" by auto
  have r1: "medicine_post role b st = (Data 201 m, st1)" by (simp add: r st1_def)
  have a1: "fst (medicine_post role b st) = Data 201 m"
    and a2: "snd (medicine_post role b st) = st1" by (simp_all add: r1)
  have a3: "status (fst (medicine_delete ''admin'' (m_id m) st1)) = 200"
    and a4: "snd (medicine_delete ''admin'' (m_id m) st1) = st2"
    by (simp_all only: del fst_conv snd_conv status.simps)
  have a5: "m_id m' = m_id m" using again(2) k by simp
  have a6: "m_oid m' \<noteq> m_oid m" using again(3) o by (simp add: st2_def)
  show ?thesis
    apply (rule exI [of _ m], rule exI [of _ "m'"])
    apply (simp only: a2 a4)
    using a1 a3 again(1) a5 a6 by blast
qed

text \<open>
  C6, as the code has it. The id given to a created patient, doctor or medicine is larger
  than the id of every record of that type stored at that moment, so across any sequence
  of create and delete requests no two stored records of a type share an id. The id of a
  deleted record is not reserved: when a record is created and an admin deletes it, the
  same create request, repeated, is answered 201 again and gives a new document the
  same id.
\<close>

theorem created_id_exceeds_stored_ids:
  "(status (fst (patient_post role pb st)) = 201 \<longrightarrow>
      (\<exists>p. fst (patient_post role pb st) = Data 201 p \<and>
           (\<forall>q \<in> set (patients st). p_id q < p_id p))) \<and>
   (status (fst (doctor_post role db st)) = 201 \<longrightarrow>
      (\<exists>d. fst (doctor_post role db st) = Data 201 d \<and>
           (\<forall>q \<in> set (doctors st). d_id q < d_id d))) \<and>
   (status (fst (medicine_post role mb st)) = 201 \<longrightarrow>
      (\<exists>m. fst (medicine_post role mb st) = Data 201 m \<and>
           (\<forall>q \<in> set (medicines st). m_id q < m_id m))) \<and>
   (ids_distinct st \<longrightarrow> ids_distinct (run_ops ops st)) \<and>
   (status (fst (patient_post role pb st)) = 201 \<longrightarrow>
      (\<exists>p p'. fst (patient_post role pb st) = Data 201 p \<and>
         status (fst (patient_delete ''admin'' (p_id p) (snd (patient_post role pb st)))) = 200 \<and>
         fst (patient_post role pb
           (snd (patient_delete ''admin'' (p_id p) (snd (patient_post role pb st)))))
           = Data 201 p' \<and>
         p_id p' = p_id p \<and> p_oid p' \<noteq> p_oid p)) \<and>
   (status (fst (doctor_post role db st)) = 201 \<longrightarrow>
      (\<exists>d d'. fst (doctor_post role db st) = Data 201 d \<and>
         status (fst (doctor_delete ''admin'' (d_id d) (snd (doctor_post role db st)))) = 200 \<and>
         fst (doctor_post role db
           (snd (doctor_delete ''admin'' (d_id d) (snd (doctor_post role db st)))))
           = Data 201 d' \<and>
         d_id d' = d_id d \<and> d_oid d' \<noteq> d_oid d)) \<and>
   (status (fst (medicine_post role mb st)) = 201 \<longrightarrow>
      (\<exists>m m'. fst (medicine_post role mb st) = Data 201 m \<and>
         status (fst (medicine_delete ''admin'' (m_id m) (snd (medicine_post role mb st)))) = 200 \<and>
         fst (medicine_post role mb
           (snd (medicine_delete ''admin'' (m_id m) (snd (medicine_post role mb st)))))
           = Data 201 m' \<and>
         m_id m' = m_id m \<and> m_oid m' \<noteq> m_oid m))"
proof -
  have p: "\<exists>p. fst (patient_post role pb st) = Data 201 p \<and>
      (\<forall>q \<in> set (patients st). p_id q < p_id p)"
    if "status (fst (patient_post role pb st)) = 201"
    using patient_post_created [OF that] by (auto simp: newId_above)
  have d: "\<exists>d. fst (doctor_post role db st) = Data 201 d \<and>
      (\<forall>q \<in> set (doctors st). d_id q < d_id d)"
    if "status (fst (doctor_post role db st)) = 201"
    using doctor_post_created [OF that] by (auto simp: newId_above)
  have m: "\<exists>m. fst (medicine_post role mb st) = Data 201 m \<and>
      (\<forall>q \<in> set (medicines st). m_id q < m_id m)"
    if "status (fst (medicine_post role mb st)) = 201"
    using medicine_post_created [OF that] by (auto simp: newId_above)
  from p d m run_ops_ids [of st ops] patient_id_reassigned [of role pb st]
    doctor_id_reassigned [of role db st] medicine_id_reassigned [of role mb st]
  show ?thesis by (intro conjI impI) blast+
qed

theorem created_id_exceeds_stored_ids_witness:
  "(\<exists>p. fst (patient_post ''admin'' sample_patient_body staffed_store) = Data 201 p \<and>
        1 < p_id p) \<and>
   (\<exists>d. fst (doctor_post ''admin'' other_doctor_body staffed_store) = Data 201 d \<and>
        1 < d_id d) \<and>
   (\<exists>m. fst (medicine_post ''admin'' sample_medicine_body staffed_store) = Data 201 m \<and>
        1 < m_id m) \<and>
   ids_distinct (run_ops [CreatePatient ''admin'' sample_patient_body, DeletePatient ''admin'' 1,
      CreateMedicine ''admin'' sample_medicine_body] staffed_store) \<and>
   (\<exists>p p'. fst (patient_post ''admin'' sample_patient_body staffed_store) = Data 201 p \<and>
      fst (patient_post ''admin'' sample_patient_body
        (snd (patient_delete ''admin'' (p_id p)
          (snd (patient_post ''admin'' sample_patient_body staffed_store))))) = Data 201 p' \<and>
      p_id p' = p_id p \<and> p_oid p' \<noteq> p_oid p)"
proof -
  have h1: "status (fst (patient_post ''admin'' sample_patient_body staffed_store)) = 201"
    by code_simp
  have h2: "status (fst (doctor_post ''admin'' other_doctor_body staffed_store)) = 201"
    by code_simp
  have h3: "status (fst (medicine_post ''admin'' sample_medicine_body staffed_store)) = 201"
    by code_simp
  have h4: "ids_distinct staffed_store" by code_simp
  have e1: "map p_id (patients staffed_store) = [1]" by code_simp
  have e2: "map d_id (doctors staffed_store) = [1]" by code_simp
  have e3: "map m_id (medicines staffed_store) = [1]" by code_simp
  have s1: "\<exists>q \<in> set (patients staffed_store). p_id q = 1"
    using e1 by (metis list.set_intros(1) list.simps(9) map_eq_Cons_D)
  have s2: "\<exists>q \<in> set (doctors staffed_store). d_id q = 1"
    using e2 by (metis list.set_intros(1) list.simps(9) map_eq_Cons_D)
  have s3: "\<exists>q \<in> set (medicines staffed_store). m_id q = 1"
    using e3 by (metis list.set_intros(1) list.simps(9) map_eq_Cons_D)
  note t = created_id_exceeds_stored_ids [of "''admin''" sample_patient_body staffed_store
      other_doctor_body sample_medicine_body
      "[CreatePatient ''admin'' sample_patient_body, DeletePatient ''admin'' 1,
        CreateMedicine ''admin'' sample_medicine_body]"]
  have c1: "\<exists>p. fst (patient_post ''admin'' sample_patient_body staffed_store) = Data 201 p \<and>
      1 < p_id p"
    using t [THEN conjunct1] h1 s1 by fastforce
  have c2: "\<exists>d. fst (doctor_post ''admin'' other_doctor_body staffed_store) = Data 201 d \<and>
      1 < d_id d"
    using t [THEN conjunct2, THEN conjunct1] h2 s2 by fastforce
  have c3: "\<exists>m. fst (medicine_post ''admin'' sample_medicine_body staffed_store) = Data 201 m \<and>
      1 < m_id m"
    using t [THEN conjunct2, THEN conjunct2, THEN conjunct1] h3 s3 by fastforce
  have c4: "ids_distinct (run_ops [CreatePatient ''admin'' sample_patient_body,
      DeletePatient ''admin'' 1, CreateMedicine ''admin'' sample_medicine_body] staffed_store)"
    using t [THEN conjunct2, THEN conjunct2, THEN conjunct2, THEN conjunct1] h4 by simp
  have c5: "\<exists>p p'. fst (patient_post ''admin'' sample_patient_body staffed_store) = Data 201 p \<and>
      fst (patient_post ''admin'' sample_patient_body
        (snd (patient_delete ''admin'' (p_id p)
          (snd (patient_post ''admin'' sample_patient_body staffed_store))))) = Data 201 p' \<and>
      p_id p' = p_id p \<and> p_oid p' \<noteq> p_oid p"
    using t [THEN conjunct2, THEN conjunct2, THEN conjunct2, THEN conjunct2, THEN conjunct1] h1
    by blast
  from c1 c2 c3 c4 c5 show ?thesis by (intro conjI)
qed

text \<open>
  A patient is created with id 1 and deleted by an admin; the patient created next is a
  new document (another store key) with the id 1 again.
\<close>

theorem deleted_patient_id_is_reassigned:
  "map p_id (patients (run_ops [CreatePatient ''admin'' sample_patient_body] doctor_store)) = [1] \<and>
   map p_oid (patients (run_ops [CreatePatient ''admin'' sample_patient_body] doctor_store)) = [3] \<and>
   patients (run_ops [CreatePatient ''admin'' sample_patient_body, DeletePatient ''admin'' 1]
      doctor_store) = [] \<and>
   map p_id (patients (run_ops [CreatePatient ''admin'' sample_patient_body,
      DeletePatient ''admin'' 1, CreatePatient ''admin'' sample_patient_body] doctor_store)) = [1] \<and>
   map p_oid (patients (run_ops [CreatePatient ''admin'' sample_patient_body,
      DeletePatient ''admin'' 1, CreatePatient ''admin'' sample_patient_body] doctor_store)) = [4]"
  by code_simp

section \<open>Patients and their doctors\<close>

lemma set_update_first: "set (update_first P (\<lambda>_. y) xs) \<subseteq> insert y (set xs)"
  by (induction xs) auto

lemma remove_first_keeps: "x \<in> set xs \<Longrightarrow> \<not> P x \<Longrightarrow> x \<in> set (remove_first P xs)"
  by (induction xs) auto

lemma patient_post_refs:
  assumes "doctor_refs_ok st"
  shows "doctor_refs_ok (snd (patient_post role b st))"
proof (cases "status (fst (patient_post role b st)) = 201")
  case True
  from patient_post_created [OF True] obtain p where
    r: "patient_post role b st =
       (Data 201 p, st\<lparr>next_oid := Suc (next_oid st), patients := patients st @ [p]\<rparr>)"
    and d: "Some (p_doctorId p) = pb_doctorId b" by blast
  from True have "findOneId d_id (pb_doctorId b) (doctors st) \<noteq> None"
    by (auto simp: patient_post_def split: option.splits)
  with d have "p_doctorId p \<in> d_id ` set (doctors st)"
    by (auto simp: findOneId_None_iff)
  with assms show ?thesis by (simp add: r doctor_refs_ok_def)
next
  case False
  with patient_post_failed [OF False] assms show ?thesis by simp
qed

lemma patient_put_refs:
  assumes ok: "doctor_refs_ok st" and nz: "pb_doctorId b \<noteq> Some 0"
  shows "doctor_refs_ok (snd (patient_put role pid b st))"
proof (cases "status (fst (patient_put role pid b st)) = 200")
  case False
  then have "snd (patient_put role pid b st) = st"
    by (auto simp: patient_put_def split: option.splits sum.splits if_splits)
  with ok show ?thesis by simp
next
  case True
  then obtain p where f: "findOne (\<lambda>p. p_id p = pid) (patients st) = Some p"
    by (auto simp: patient_put_def split: option.splits)
  from True f have chk: "\<not> (case pb_doctorId b of
      Some d \<Rightarrow> d \<noteq> 0 \<and> findOne (\<lambda>x. d_id x = d) (doctors st) = None | None \<Rightarrow> False)"
    by (auto simp: patient_put_def split: if_splits)
  from True f chk have st': "snd (patient_put role pid b st) =
      st\<lparr>patients := update_first (\<lambda>x. p_id x = pid) (\<lambda>_. patch_patient b p) (patients st)\<rparr>"
    by (auto simp: patient_put_def update_patient_def Let_def split: if_splits sum.splits)
  from f have pm: "p \<in> set (patients st)" by (simp add: findOne_def find_Some_mem)
  have "p_doctorId (patch_patient b p) \<in> d_id ` set (doctors st)"
  proof (cases "pb_doctorId b")
    case None
    with ok pm show ?thesis
      by (auto simp: patch_patient_def set_field_def doctor_refs_ok_def list_all_iff)
  next
    case (Some d)
    with nz chk have "findOne (\<lambda>x. d_id x = d) (doctors st) \<noteq> None" by simp
    then have "d \<in> d_id ` set (doctors st)" by (auto simp: findOne_None_iff)
    with Some show ?thesis by (simp add: patch_patient_def set_field_def)
  qed
  with ok set_update_first [of "\<lambda>x. p_id x = pid" "patch_patient b p" "patients st"]
  show ?thesis by (auto simp: st' doctor_refs_ok_def list_all_iff)
qed

lemma patient_delete_refs:
  assumes "doctor_refs_ok st"
  shows "doctor_refs_ok (snd (patient_delete role pid st))"
  using assms set_remove_first [of "\<lambda>p. p_id p = pid" "patients st"]
  by (auto simp: patient_delete_def doctor_refs_ok_def list_all_iff split: option.splits)

lemma doctor_post_refs:
  assumes "doctor_refs_ok st"
  shows "doctor_refs_ok (snd (doctor_post role b st))"
proof (cases "status (fst (doctor_post role b st)) = 201")
  case True
  from doctor_post_created [OF True] obtain d where
    "doctor_post role b st =
       (Data 201 d, st\<lparr>next_oid := Suc (next_oid st), doctors := doctors st @ [d]\<rparr>)" by blast
  with assms show ?thesis by (auto simp: doctor_refs_ok_def list_all_iff)
next
  case False
  with doctor_post_failed [OF False] assms show ?thesis by simp
qed

lemma doctor_delete_refs:
  assumes "doctor_refs_ok st"
  shows "list_all (\<lambda>p. p_doctorId p \<noteq> did \<longrightarrow>
            p_doctorId p \<in> set (map d_id (doctors (snd (doctor_delete role did st)))))
          (patients (snd (doctor_delete role did st)))"
proof -
  have "p_doctorId p \<in> d_id ` set (remove_first (\<lambda>d. d_id d = did) (doctors st))"
    if "p \<in> set (patients st)" and "p_doctorId p \<noteq> did" for p
  proof -
    from assms that(1) obtain d where "d \<in> set (doctors st)" "d_id d = p_doctorId p"
      by (auto simp: doctor_refs_ok_def list_all_iff)
    with that(2) show ?thesis
      by (intro image_eqI [where x = d]) (simp_all add: remove_first_keeps)
  qed
  with assms show ?thesis
    by (auto simp: doctor_delete_def doctor_refs_ok_def list_all_iff split: option.splits)
qed

lemma doctor_delete_patients: "patients (snd (doctor_delete role did st)) = patients st"
  by (simp add: doctor_delete_def split: option.splits)

text \<open>
  C7, as the code has it. In a store in which every patient's \<open>doctorId\<close> is the id of a
  stored doctor, that still holds after Create Patient, after Update Patient with a
  payload that has no \<open>doctorId\<close> or a non-zero one, after Delete Patient and after
  Create Doctor. Delete Doctor does not look at the patients: afterwards the patients of
  the other doctors still reference a stored doctor, and a patient of the deleted doctor
  keeps the deleted id.
\<close>

theorem doctor_reference_preserved:
  assumes "doctor_refs_ok st"
  shows "doctor_refs_ok (snd (patient_post role pb st)) \<and>
    (pb_doctorId pb \<noteq> Some 0 \<longrightarrow> doctor_refs_ok (snd (patient_put role pid pb st))) \<and>
    doctor_refs_ok (snd (patient_delete role pid st)) \<and>
    doctor_refs_ok (snd (doctor_post role db st)) \<and>
    list_all (\<lambda>p. p_doctorId p \<noteq> did \<longrightarrow>
        p_doctorId p \<in> set (map d_id (doctors (snd (doctor_delete role did st)))))
      (patients (snd (doctor_delete role did st))) \<and>
    patients (snd (doctor_delete role did st)) = patients st"
  using patient_post_refs [OF assms] patient_put_refs [OF assms] patient_delete_refs [OF assms]
    doctor_post_refs [OF assms] doctor_delete_refs [OF assms] doctor_delete_patients
  by blast

theorem doctor_reference_preserved_witness:
  "doctor_refs_ok (snd (patient_post ''admin'' sample_patient_body clinic_store)) \<and>
   status (fst (patient_put ''admin'' 1 change_ward_patient_body clinic_store)) = 200 \<and>
   doctor_refs_ok (snd (patient_put ''admin'' 1 change_ward_patient_body clinic_store)) \<and>
   doctor_refs_ok (snd (patient_delete ''admin'' 1 clinic_store)) \<and>
   doctor_refs_ok (snd (doctor_post ''admin'' sample_doctor_body clinic_store)) \<and>
   status (fst (doctor_delete ''admin'' 2 two_doctor_store)) = 200 \<and>
   1 \<in> set (map d_id (doctors (snd (doctor_delete ''admin'' 2 two_doctor_store))))"
proof -
  let ?st = "snd (doctor_delete ''admin'' 2 two_doctor_store)"
  have h: "doctor_refs_ok clinic_store" by code_simp
  have h': "doctor_refs_ok two_doctor_store" by code_simp
  have nz: "pb_doctorId change_ward_patient_body \<noteq> Some 0" by code_simp
  have s: "status (fst (patient_put ''admin'' 1 change_ward_patient_body clinic_store)) = 200"
    by code_simp
  have s': "status (fst (doctor_delete ''admin'' 2 two_doctor_store)) = 200" by code_simp
  have e: "map p_doctorId (patients ?st) = [1]" by code_simp
  note a = doctor_reference_preserved [OF h, of "''admin''" change_ward_patient_body 1
      sample_doctor_body 2]
  note b = doctor_reference_preserved [OF h, of "''admin''" sample_patient_body 1
      sample_doctor_body 2]
  note c = doctor_reference_preserved [OF h', of "''admin''" sample_patient_body 1
      sample_doctor_body 2]
  have t: "list_all (\<lambda>p. p_doctorId p \<noteq> 2 \<longrightarrow> p_doctorId p \<in> set (map d_id (doctors ?st)))
      (patients ?st)"
    by (rule c [THEN conjunct2, THEN conjunct2, THEN conjunct2, THEN conjunct2, THEN conjunct1])
  have "list_all (\<lambda>k. k \<noteq> 2 \<longrightarrow> k \<in> set (map d_id (doctors ?st))) (map p_doctorId (patients ?st))"
    using t by (simp add: list_all_iff)
  then have del: "1 \<in> set (map d_id (doctors ?st))"
    unfolding e by simp
  have c1: "doctor_refs_ok (snd (patient_post ''admin'' sample_patient_body clinic_store))"
    by (rule b [THEN conjunct1])
  have c2: "doctor_refs_ok (snd (patient_put ''admin'' 1 change_ward_patient_body clinic_store))"
    using a [THEN conjunct2, THEN conjunct1] nz by simp
  have c3: "doctor_refs_ok (snd (patient_delete ''admin'' 1 clinic_store))"
    by (rule b [THEN conjunct2, THEN conjunct2, THEN conjunct1])
  have c4: "doctor_refs_ok (snd (doctor_post ''admin'' sample_doctor_body clinic_store))"
    by (rule b [THEN conjunct2, THEN conjunct2, THEN conjunct2, THEN conjunct1])
  from c1 s c2 c3 c4 s' del show ?thesis by (intro conjI)
qed

text \<open>
  An admin deletes doctor 1 of the clinic store while patient 1 references that doctor:
  the request is answered 200 and the patient's \<open>doctorId\<close> references no stored doctor.
\<close>

theorem doctor_delete_breaks_reference:
  "doctor_refs_ok clinic_store \<and>
   status (fst (doctor_delete ''admin'' 1 clinic_store)) = 200 \<and>
   map p_doctorId (patients (snd (doctor_delete ''admin'' 1 clinic_store))) = [1] \<and>
   doctors (snd (doctor_delete ''admin'' 1 clinic_store)) = [] \<and>
   \<not> doctor_refs_ok (snd (doctor_delete ''admin'' 1 clinic_store))"
  by code_simp

section \<open>Partial updates\<close>











end
